theory Spec2Isabelle
  imports Main "HOL-Library.AList" "HOL-Library.Multiset" "HOL-Library.Sublist"
begin

section \<open>JavaScript values and strings\<close>

text \<open>
  The server is TypeScript running on Deno. A string of the model is a \<^typ>\<open>string\<close>;
  one \<^typ>\<open>char\<close> stands for one code unit below 256. The static types of the service's
  parameters say \<open>string\<close>, but the service checks them again at run time
  (\<open>typeof data.title !== 'string'\<close>, \<open>data.title !== undefined\<close>), so a field of the
  submitted data is a JavaScript value.
\<close>

datatype JSValue = JSUndefined | JSNull | JSBoolean bool | JSNumber int | JSString string

text \<open>Truthiness, as \<open>!v\<close> and \<open>v || d\<close> read it.\<close>

fun truthy :: "JSValue \<Rightarrow> bool" where
  "truthy JSUndefined = False"
| "truthy JSNull = False"
| "truthy (JSBoolean b) = b"
| "truthy (JSNumber n) = (n \<noteq> 0)"
| "truthy (JSString s) = (s \<noteq> [])"

text \<open>\<open>String.prototype.trim\<close>: white space and line terminators below code unit 256.\<close>

definition isWhiteSpace :: "char \<Rightarrow> bool" where
  "isWhiteSpace c = ((of_char c :: nat) \<in> {9, 10, 11, 12, 13, 32, 160})"

definition trim :: "string \<Rightarrow> string" where
  "trim s = rev (dropWhile isWhiteSpace (rev (dropWhile isWhiteSpace s)))"

text \<open>\<open>Array.prototype.join\<close> on an array of strings.\<close>

fun join :: "string \<Rightarrow> string list \<Rightarrow> string" where
  "join sep [] = []"
| "join sep [x] = x"
| "join sep (x # y # ys) = x @ sep @ join sep (y # ys)"

text \<open>\<open>Number.prototype.toString\<close> on a non-negative integer: its decimal digits.\<close>

definition digit :: "nat \<Rightarrow> char" where
  "digit d = char_of (48 + d)"

fun toString :: "nat \<Rightarrow> string" where
  "toString n = (if n < 10 then [digit n] else toString (n div 10) @ [digit (n mod 10)])"

declare toString.simps [simp del]

text \<open>
  \<open>n++\<close> on a number that holds a non-negative integer stores \<open>n + 1\<close> rounded to a
  double. Up to \<open>Number.MAX_SAFE_INTEGER\<close>, which is \<open>2^53 - 1\<close>, the sum is exact. At
  \<open>2^53\<close> it is not: \<open>2^53 + 1\<close> is no double and rounds, ties to even, back to \<open>2^53\<close>, so
  the number stays where it is. A counter that starts below \<open>2^53\<close> therefore never holds a
  larger value, and the definition is read only for numbers up to \<open>2^53\<close>; the counter of
  the service starts at 4.
\<close>

definition MAX_SAFE_INTEGER :: nat where
  "MAX_SAFE_INTEGER = 9007199254740991"

definition increment :: "nat \<Rightarrow> nat" where
  "increment n = (if n \<le> MAX_SAFE_INTEGER then n + 1 else n)"

section \<open>Tasks\<close>

type_synonym TaskId = string
type_synonym TaskPriority = string

definition TASK_PRIORITIES :: "TaskPriority list" where
  "TASK_PRIORITIES = [''low'', ''medium'', ''high'']"

text \<open>\<open>createdAt\<close> is a \<open>Date\<close>: milliseconds since the epoch.\<close>

record Task =
  task_id :: TaskId
  title :: string
  description :: string
  priority :: TaskPriority
  completed :: bool
  createdAt :: int

text \<open>The \<open>data\<close> argument of \<open>createTask\<close> and \<open>updateTask\<close>; an absent field is
  \<^const>\<open>JSUndefined\<close>.\<close>

record TaskData =
  data_title :: JSValue
  data_description :: JSValue
  data_priority :: JSValue

text \<open>\<open>TASK_PRIORITIES.includes(v)\<close>.\<close>

fun Array_includes :: "string list \<Rightarrow> JSValue \<Rightarrow> bool" where
  "Array_includes ps (JSString p) = (p \<in> set ps)"
| "Array_includes ps _ = False"

datatype Error = Error (message: string)

section \<open>The task store: a JavaScript Map\<close>

text \<open>
  A \<open>Map\<close> iterates in insertion order; \<open>set\<close> on a key that is present replaces the
  value in place, on a new key it appends; \<open>delete\<close> says whether the key was there.
\<close>

type_synonym TaskStore = "(TaskId \<times> Task) list"

definition Map_get :: "TaskStore \<Rightarrow> TaskId \<Rightarrow> Task option" where
  "Map_get m k = map_of m k"

definition Map_set :: "TaskStore \<Rightarrow> TaskId \<Rightarrow> Task \<Rightarrow> TaskStore" where
  "Map_set m k v = AList.update k v m"

definition Map_delete :: "TaskStore \<Rightarrow> TaskId \<Rightarrow> bool \<times> TaskStore" where
  "Map_delete m k = (map_of m k \<noteq> None, AList.delete k m)"

definition Map_values :: "TaskStore \<Rightarrow> Task list" where
  "Map_values m = map snd m"

section \<open>TaskService\<close>

record TaskService =
  taskStore :: TaskStore
  nextId :: nat

text \<open>
  \<open>nextId\<close> is a JavaScript number that holds a non-negative integer; \<open>this.nextId++\<close> is
  \<^const>\<open>increment\<close>.
\<close>

text \<open>
  A method of the service takes the service's state and returns its result with the
  state it leaves behind; a \<open>throw\<close> is \<^const>\<open>Inl\<close>, with the state at the throw.
\<close>

definition priority_message :: string where
  "priority_message =
     ''Invalid task data: Priority must be one of '' @ join '', '' TASK_PRIORITIES @ ''.''"

text \<open>The first check of \<open>createTask\<close>:
  \<open>!data.title || typeof data.title !== 'string' || data.title.trim() === ""\<close>.\<close>

fun create_title_invalid :: "JSValue \<Rightarrow> bool" where
  "create_title_invalid (JSString t) = (\<not> truthy (JSString t) \<or> trim t = [])"
| "create_title_invalid v = True"

text \<open>\<open>typeof v !== 'string'\<close>.\<close>

fun not_string :: "JSValue \<Rightarrow> bool" where
  "not_string (JSString s) = False"
| "not_string v = True"

text \<open>The string held by a value that passed the \<open>typeof\<close> check.\<close>

fun string_of :: "JSValue \<Rightarrow> string" where
  "string_of (JSString s) = s"
| "string_of v = []"

text \<open>\<open>!id\<close> on the optional \<open>id\<close> parameter: absent or the empty string.\<close>

fun id_given :: "TaskId option \<Rightarrow> bool" where
  "id_given None = False"
| "id_given (Some i) = (i \<noteq> [])"

text \<open>\<open>id || d\<close>.\<close>

fun id_or :: "TaskId option \<Rightarrow> TaskId \<Rightarrow> TaskId" where
  "id_or None d = d"
| "id_or (Some i) d = (if i \<noteq> [] then i else d)"

definition createTask ::
  "TaskService \<Rightarrow> TaskData \<Rightarrow> TaskId option \<Rightarrow> bool option \<Rightarrow> int option \<Rightarrow> int
     \<Rightarrow> (Error + Task) \<times> TaskService" where
  "createTask s d idopt completedopt createdAtopt now =
     (if create_title_invalid (data_title d) then
        (Inl (Error ''Invalid task data: Title is required and cannot be empty.''), s)
      else if \<not> Array_includes TASK_PRIORITIES (data_priority d) then
        (Inl (Error priority_message), s)
      else if not_string (data_description d) then
        (Inl (Error ''Invalid task data: Description must be a string.''), s)
      else if \<not> id_given idopt \<and> \<not> Array_includes TASK_PRIORITIES (data_priority d) then
        (Inl (Error priority_message), s)
      else
        let newId = id_or idopt (toString (nextId s));
            s1 = (if id_given idopt then s else s\<lparr>nextId := increment (nextId s)\<rparr>);
            task = \<lparr>task_id = newId,
                    title = trim (string_of (data_title d)),
                    description = string_of (data_description d),
                    priority = string_of (data_priority d),
                    completed = (case completedopt of Some c \<Rightarrow> c | None \<Rightarrow> False),
                    createdAt = (case createdAtopt of Some t \<Rightarrow> t | None \<Rightarrow> now)\<rparr>
        in (Inr task, s1\<lparr>taskStore := Map_set (taskStore s1) newId task\<rparr>))"

text \<open>The title check of \<open>updateTask\<close>, under \<open>data.title !== undefined\<close>:
  \<open>typeof data.title !== 'string' || data.title.trim() === ""\<close>.\<close>

fun update_title_invalid :: "JSValue \<Rightarrow> bool" where
  "update_title_invalid JSUndefined = False"
| "update_title_invalid (JSString t) = (trim t = [])"
| "update_title_invalid v = True"

definition updateTask ::
  "TaskService \<Rightarrow> TaskId \<Rightarrow> TaskData \<Rightarrow> (Error + Task option) \<times> TaskService" where
  "updateTask s i d =
     (case Map_get (taskStore s) i of
        None \<Rightarrow> (Inr None, s)
      | Some task \<Rightarrow>
          if update_title_invalid (data_title d) then
            (Inl (Error ''Invalid task data: Title cannot be empty.''), s)
          else if data_priority d \<noteq> JSUndefined
                  \<and> \<not> Array_includes TASK_PRIORITIES (data_priority d) then
            (Inl (Error priority_message), s)
          else if data_description d \<noteq> JSUndefined \<and> not_string (data_description d) then
            (Inl (Error ''Invalid task data: Description must be a string.''), s)
          else
            let updatedTask = task
                  \<lparr>title := (if data_title d \<noteq> JSUndefined
                              then trim (string_of (data_title d)) else title task),
                   description := (if data_description d \<noteq> JSUndefined
                              then string_of (data_description d) else description task),
                   priority := (if data_priority d \<noteq> JSUndefined
                              then string_of (data_priority d) else priority task)\<rparr>
            in (Inr (Some updatedTask),
                s\<lparr>taskStore := Map_set (taskStore s) i updatedTask\<rparr>))"

definition toggleTaskCompletion :: "TaskService \<Rightarrow> TaskId \<Rightarrow> Task option \<times> TaskService" where
  "toggleTaskCompletion s i =
     (case Map_get (taskStore s) i of
        None \<Rightarrow> (None, s)
      | Some task \<Rightarrow>
          let updatedTask = task\<lparr>completed := \<not> completed task\<rparr>
          in (Some updatedTask, s\<lparr>taskStore := Map_set (taskStore s) i updatedTask\<rparr>))"

definition deleteTask :: "TaskService \<Rightarrow> TaskId \<Rightarrow> bool \<times> TaskService" where
  "deleteTask s i =
     (let (found, m) = Map_delete (taskStore s) i in (found, s\<lparr>taskStore := m\<rparr>))"

definition getTaskById :: "TaskService \<Rightarrow> TaskId \<Rightarrow> Task option" where
  "getTaskById s i = Map_get (taskStore s) i"

text \<open>
  \<open>Array.prototype.sort\<close> with a comparator is a stable sort: \<open>x\<close> is placed before
  \<open>y\<close> when \<open>cmp(x, y) < 0\<close>, and elements that compare equal keep their order.
\<close>

fun insert_by :: "('a \<Rightarrow> 'a \<Rightarrow> int) \<Rightarrow> 'a \<Rightarrow> 'a list \<Rightarrow> 'a list" where
  "insert_by cmp x [] = [x]"
| "insert_by cmp x (y # ys) =
     (if cmp x y \<le> 0 then x # y # ys else y # insert_by cmp x ys)"

definition sort_by :: "('a \<Rightarrow> 'a \<Rightarrow> int) \<Rightarrow> 'a list \<Rightarrow> 'a list" where
  "sort_by cmp xs = foldr (insert_by cmp) xs []"

text \<open>The comparator of \<open>getAllTasks\<close>: \<open>(a, b) => b.createdAt.getTime() - a.createdAt.getTime()\<close>.\<close>

definition newest_first :: "Task \<Rightarrow> Task \<Rightarrow> int" where
  "newest_first a b = createdAt b - createdAt a"

text \<open>The filter of \<open>getAllTasks\<close>; \<open>status\<close> is the query value, \<^const>\<open>None\<close> when absent.\<close>

definition status_filter :: "string option \<Rightarrow> Task \<Rightarrow> bool" where
  "status_filter status task =
     (if status = Some ''active'' then \<not> completed task
      else if status = Some ''completed'' then completed task
      else True)"

definition getAllTasks :: "TaskService \<Rightarrow> string option \<Rightarrow> Task list" where
  "getAllTasks s status =
     sort_by newest_first (filter (status_filter status) (Map_values (taskStore s)))"

text \<open>
  The constructor: the field initialisers, then \<open>seedInitialTasks\<close>. The three clock
  readings are those of \<open>new Date()\<close>, \<open>Date.now()\<close> and \<open>new Date()\<close> in its three calls.
\<close>

definition initialTasksData :: "TaskData list" where
  "initialTasksData =
     [\<lparr>data_title = JSString ''Complete the project setup'',
       data_description = JSString ''Initial setup for the Shoelace and HTMX demo'',
       data_priority = JSString ''medium''\<rparr>,
      \<lparr>data_title = JSString ''Research Web Components'',
       data_description = JSString ''Look into Shoelace and other component libraries'',
       data_priority = JSString ''low''\<rparr>,
      \<lparr>data_title = JSString ''Implement server endpoints'',
       data_description = JSString ''Create the API for task management'',
       data_priority = JSString ''high''\<rparr>]"

definition seedInitialTasks ::
  "TaskService \<Rightarrow> int \<Rightarrow> int \<Rightarrow> int \<Rightarrow> (Error + unit) \<times> TaskService" where
  "seedInitialTasks s t1 t2 t3 =
     (case createTask s (initialTasksData ! 0) (Some ''1'') (Some False) (Some t1) t1 of
        (Inl e, s1) \<Rightarrow> (Inl e, s1)
      | (Inr _, s1) \<Rightarrow>
     (case createTask s1 (initialTasksData ! 1) (Some ''2'') (Some True)
             (Some (t2 - 86400000)) t2 of
        (Inl e, s2) \<Rightarrow> (Inl e, s2)
      | (Inr _, s2) \<Rightarrow>
     (case createTask s2 (initialTasksData ! 2) (Some ''3'') (Some False) (Some t3) t3 of
        (Inl e, s3) \<Rightarrow> (Inl e, s3)
      | (Inr _, s3) \<Rightarrow> (Inr (), s3))))"

definition new_TaskService :: "int \<Rightarrow> int \<Rightarrow> int \<Rightarrow> (Error + unit) \<times> TaskService" where
  "new_TaskService t1 t2 t3 = seedInitialTasks \<lparr>taskStore = [], nextId = 4\<rparr> t1 t2 t3"

text \<open>
  The calls a running server makes on the service. \<open>Create\<close> is \<open>createTask(data)\<close>, with
  no \<open>id\<close>, \<open>completed\<close> or \<open>createdAt\<close>, at the given clock reading.
\<close>

datatype Op = Create TaskData int | Update TaskId TaskData | Toggle TaskId | Delete TaskId

fun step :: "TaskService \<Rightarrow> Op \<Rightarrow> TaskService" where
  "step s (Create d now) = snd (createTask s d None None None now)"
| "step s (Update i d) = snd (updateTask s i d)"
| "step s (Toggle i) = snd (toggleTaskCompletion s i)"
| "step s (Delete i) = snd (deleteTask s i)"

fun run :: "TaskService \<Rightarrow> Op list \<Rightarrow> TaskService" where
  "run s [] = s"
| "run s (op # ops) = run (step s op) ops"

section \<open>Rendering\<close>

text \<open>
  Modelled from the spec: \<open>htmlEscape\<close> of \<open>./html_utils.ts\<close>, which the server imports and
  which is not among the sources. The specification says of it only that a string
  interpolated into a fragment is escaped against HTML injection: angle brackets, quotes
  and ampersands. The model replaces each of \<open>&\<close>, \<open><\<close>, \<open>>\<close>, the double quote and the
  single quote by its character reference and keeps every other character.
\<close>

definition htmlEscape_char :: "char \<Rightarrow> string" where
  \<open>htmlEscape_char c =
     (if c = CHR ''&'' then ''&amp;''
      else if c = CHR ''<'' then ''&lt;''
      else if c = CHR ''>'' then ''&gt;''
      else if c = CHR 0x22 then ''&quot;''
      else if c = CHR 0x27 then ''&#39;''
      else [c])\<close>

text \<open>Modelled from the spec: \<open>htmlEscape\<close> escapes its argument character by character.\<close>

definition htmlEscape :: "string \<Rightarrow> string" where
  "htmlEscape s = concat (map htmlEscape_char s)"

definition taskToHtml :: "Task \<Rightarrow> string" where
  \<open>taskToHtml task =
     (let taskClass = (if completed task then ''task-complete'' else []);
          badgeVariant =
            (if priority task = ''high'' then ''danger''
             else if priority task = ''medium'' then ''primary''
             else ''success'')
      in
         ''\<newline>'' @
         ''    <div id="task-'' @ htmlEscape (task_id task) @ ''" class="task-item">\<newline>'' @
         ''      <div>\<newline>'' @
         ''        <sl-checkbox\<newline>'' @
         ''          '' @ (if completed task then ''checked'' else []) @ ''\<newline>'' @
         ''          hx-put="/api/tasks/'' @ htmlEscape (task_id task) @ ''/toggle"\<newline>'' @
         ''          hx-trigger="change"\<newline>'' @
         ''          hx-swap="outerHTML"\<newline>'' @
         ''          hx-target="#task-'' @ htmlEscape (task_id task) @ ''">\<newline>'' @
         ''          <span class="'' @ taskClass @ ''">'' @ htmlEscape (title task) @ ''</span>\<newline>'' @
         ''        </sl-checkbox>\<newline>'' @
         ''        <div style="margin-left: 1.75rem; color: var(--sl-color-neutral-600); font-size: 0.875rem;">\<newline>'' @
         ''          '' @ htmlEscape (description task) @ ''\<newline>'' @
         ''        </div>\<newline>'' @
         ''      </div>\<newline>'' @
         ''      \<newline>'' @
         ''      <div>\<newline>'' @
         ''        <sl-badge variant="'' @ badgeVariant @ ''">'' @ htmlEscape (priority task) @ ''</sl-badge>\<newline>'' @
         ''        <sl-dropdown>\<newline>'' @
         ''          <sl-button slot="trigger" size="small" variant="neutral" circle>\<newline>'' @
         ''            <sl-icon name="three-dots-vertical"></sl-icon>\<newline>'' @
         ''          </sl-button>\<newline>'' @
         ''          <sl-menu>\<newline>'' @
         ''            <sl-menu-item hx-get="/api/tasks/'' @ htmlEscape (task_id task) @ ''/edit" hx-target="#task-'' @ htmlEscape (task_id task) @ ''" hx-swap="outerHTML">\<newline>'' @
         ''              <sl-icon slot="prefix" name="pencil"></sl-icon>\<newline>'' @
         ''              Edit\<newline>'' @
         ''            </sl-menu-item>\<newline>'' @
         ''            <sl-menu-item hx-delete="/api/tasks/'' @ htmlEscape (task_id task) @ ''" hx-target="#task-'' @ htmlEscape (task_id task) @ ''" hx-swap="outerHTML" hx-confirm="Are you sure you want to delete this task?">\<newline>'' @
         ''              <sl-icon slot="prefix" name="trash"></sl-icon>\<newline>'' @
         ''              Delete\<newline>'' @
         ''            </sl-menu-item>\<newline>'' @
         ''          </sl-menu>\<newline>'' @
         ''        </sl-dropdown>\<newline>'' @
         ''      </div>\<newline>'' @
         ''    </div>\<newline>'' @
         ''  '')\<close>

definition taskEditFormHtml :: "Task \<Rightarrow> string" where
  \<open>taskEditFormHtml task =
         ''\<newline>'' @
         ''    <form class="task-form edit-task-form"\<newline>'' @
         ''          hx-put="/api/tasks/'' @ htmlEscape (task_id task) @ ''"\<newline>'' @
         ''          hx-target="#task-'' @ htmlEscape (task_id task) @ ''"\<newline>'' @
         ''          hx-swap="outerHTML">\<newline>'' @
         ''      \<newline>'' @
         ''      <sl-input name="title" required placeholder="Task title" value="'' @ htmlEscape (title task) @ ''"></sl-input>\<newline>'' @
         ''      \<newline>'' @
         ''      <sl-textarea name="description" placeholder="Description">'' @ htmlEscape (description task) @ ''</sl-textarea>\<newline>'' @
         ''      \<newline>'' @
         ''      <sl-select name="priority" placeholder="Select priority" value="'' @ htmlEscape (priority task) @ ''">\<newline>'' @
         ''        <sl-option value="low">Low</sl-option>\<newline>'' @
         ''        <sl-option value="medium">Medium</sl-option>\<newline>'' @
         ''        <sl-option value="high">High</sl-option>\<newline>'' @
         ''      </sl-select>\<newline>'' @
         ''      \<newline>'' @
         ''      <div class="form-actions">\<newline>'' @
         ''        <sl-button \<newline>'' @
         ''          type="button" \<newline>'' @
         ''          variant="neutral"\<newline>'' @
         ''          hx-get="/api/tasks/'' @ htmlEscape (task_id task) @ ''"\<newline>'' @
         ''          hx-target="#task-'' @ htmlEscape (task_id task) @ ''"\<newline>'' @
         ''          hx-swap="outerHTML">\<newline>'' @
         ''          Cancel\<newline>'' @
         ''        </sl-button>\<newline>'' @
         ''        <sl-button type="submit" variant="primary">Save</sl-button>\<newline>'' @
         ''      </div>\<newline>'' @
         ''    </form>\<newline>'' @
         ''  ''\<close>

section \<open>Responses\<close>

text \<open>A \<open>Response\<close>: its status (200 when the constructor is given none), its headers
  and its body (\<^const>\<open>None\<close> for \<open>null\<close>).\<close>

record Response =
  resp_status :: nat
  resp_headers :: "(string \<times> string) list"
  resp_body :: "string option"

definition DEFAULT_CORS_HEADERS :: "(string \<times> string) list" where
  "DEFAULT_CORS_HEADERS =
     [(''Access-Control-Allow-Origin'', ''*''),
      (''Access-Control-Allow-Methods'', ''GET, POST, PUT, DELETE, OPTIONS''),
      (''Access-Control-Allow-Headers'', ''Content-Type'')]"

text \<open>\<open>{ ...DEFAULT_CORS_HEADERS, "Content-Type": t }\<close>.\<close>

definition headers_with :: "string \<Rightarrow> (string \<times> string) list" where
  "headers_with t = DEFAULT_CORS_HEADERS @ [(''Content-Type'', t)]"

definition content_type :: "Response \<Rightarrow> string option" where
  "content_type r = map_of (resp_headers r) ''Content-Type''"

text \<open>\<open>JSON.stringify\<close> of a string: quoted, with the quote, the backslash and the
  control characters escaped.\<close>

definition hex_digit :: "nat \<Rightarrow> char" where
  "hex_digit n = (if n < 10 then char_of (48 + n) else char_of (87 + n))"

definition JSON_quote_char :: "char \<Rightarrow> string" where
  "JSON_quote_char c =
     (let n = (of_char c :: nat) in
      if n = 34 then [CHR 0x5C, CHR 0x22]
      else if n = 92 then [CHR 0x5C, CHR 0x5C]
      else if n = 8 then [CHR 0x5C, CHR ''b'']
      else if n = 12 then [CHR 0x5C, CHR ''f'']
      else if n = 10 then [CHR 0x5C, CHR ''n'']
      else if n = 13 then [CHR 0x5C, CHR ''r'']
      else if n = 9 then [CHR 0x5C, CHR ''t'']
      else if n < 32 then
        [CHR 0x5C, CHR ''u'', CHR ''0'', CHR ''0'', hex_digit (n div 16), hex_digit (n mod 16)]
      else [c])"

definition JSON_stringify_string :: "string \<Rightarrow> string" where
  "JSON_stringify_string s = [CHR 0x22] @ concat (map JSON_quote_char s) @ [CHR 0x22]"

text \<open>\<open>JSON.stringify({ error: message })\<close> is the envelope.\<close>

definition jsonErrorResponse :: "string \<Rightarrow> nat \<Rightarrow> Response" where
  \<open>jsonErrorResponse msg st =
     \<lparr>resp_status = st,
      resp_headers = headers_with ''application/json'',
      resp_body = Some (''{"error":'' @ JSON_stringify_string msg @ ''}'')\<rparr>\<close>

definition htmlErrorResponse :: "string \<Rightarrow> nat \<Rightarrow> string \<Rightarrow> Response" where
  \<open>htmlErrorResponse msg st variant =
     (let alertHtml =
         ''\<newline>'' @
         ''    <sl-alert variant="'' @ variant @ ''" open closable>\<newline>'' @
         ''      <sl-icon slot="icon" name="'' @ (if variant = ''danger'' then ''exclamation-octagon'' else ''exclamation-triangle'') @ ''"></sl-icon>\<newline>'' @
         ''      '' @ htmlEscape msg @ ''\<newline>'' @
         ''    </sl-alert>\<newline>'' @
         ''  ''
      in \<lparr>resp_status = st,
          resp_headers = headers_with ''text/html'',
          resp_body = Some alertHtml\<rparr>)\<close>

text \<open>\<open>new Response(html, { headers: { ...DEFAULT_CORS_HEADERS, "Content-Type": "text/html" } })\<close>.\<close>

definition htmlResponse :: "string \<Rightarrow> Response" where
  "htmlResponse html =
     \<lparr>resp_status = 200, resp_headers = headers_with ''text/html'', resp_body = Some html\<rparr>"

section \<open>Requests and routing\<close>

text \<open>
  What the handlers read of a request: the \<open>status\<close> query value
  (\<open>url.searchParams.get("status")\<close>, \<^const>\<open>None\<close> for \<open>null\<close>) and the outcome of
  \<open>req.formData()\<close>, which either throws or gives the submitted fields in order.
\<close>

type_synonym FormData = "(string \<times> string) list"

record Request =
  req_status :: "string option"
  req_formData :: "Error + FormData"

definition parseFormData :: "Request \<Rightarrow> Error + FormData" where
  "parseFormData req = req_formData req"

text \<open>\<open>formData.get(name)?.toString()\<close>: the first value under the name, \<^const>\<open>None\<close> for
  \<open>undefined\<close>; and \<open>formData.has(name)\<close>.\<close>

definition FormData_get :: "FormData \<Rightarrow> string \<Rightarrow> string option" where
  "FormData_get fd name = map_of fd name"

definition FormData_has :: "FormData \<Rightarrow> string \<Rightarrow> bool" where
  "FormData_has fd name = (map_of fd name \<noteq> None)"

text \<open>\<open>v || d\<close> on an optional string.\<close>

fun or_else :: "string option \<Rightarrow> string \<Rightarrow> string" where
  "or_else None d = d"
| "or_else (Some v) d = (if v \<noteq> [] then v else d)"

text \<open>\<open>String.prototype.split\<close> on a one-character separator.\<close>

fun split :: "char \<Rightarrow> string \<Rightarrow> string list" where
  "split sep [] = [[]]"
| "split sep (c # cs) =
     (if c = sep then [] # split sep cs
      else (case split sep cs of [] \<Rightarrow> [[c]] | x # xs \<Rightarrow> (c # x) # xs))"

text \<open>
  \<open>getPathParams\<close>: for each pattern segment that starts with a colon, the path segment at
  the same index, \<^const>\<open>None\<close> (\<open>undefined\<close>) when the path has no such segment. A later
  assignment to the same name replaces an earlier one, so a name is looked up from the end.
\<close>

fun getPathParams_loop :: "string list \<Rightarrow> string list \<Rightarrow> (string \<times> string option) list" where
  "getPathParams_loop [] urlSegments = []"
| "getPathParams_loop (p # ps) urlSegments =
     (let here = (case urlSegments of [] \<Rightarrow> None | u # _ \<Rightarrow> Some u);
          rest = getPathParams_loop ps (tl urlSegments)
      in case p of
           [] \<Rightarrow> rest
         | c # paramName \<Rightarrow> if c = CHR '':'' then (paramName, here) # rest else rest)"

definition getPathParams :: "string \<Rightarrow> string \<Rightarrow> (string \<times> string option) list" where
  "getPathParams pattern path =
     getPathParams_loop (split CHR ''/'' pattern) (split CHR ''/'' path)"

text \<open>\<open>params.id\<close>.\<close>

definition params_id :: "(string \<times> string option) list \<Rightarrow> TaskId option" where
  "params_id params = (case map_of (rev params) ''id'' of None \<Rightarrow> None | Some v \<Rightarrow> v)"

text \<open>\<open>\w\<close> of a regular expression without flags: an ASCII letter, a digit or the
  underscore.\<close>

definition isWordChar :: "char \<Rightarrow> bool" where
  "isWordChar c =
     (let n = (of_char c :: nat)
      in (65 \<le> n \<and> n \<le> 90) \<or> (97 \<le> n \<and> n \<le> 122) \<or> (48 \<le> n \<and> n \<le> 57) \<or> n = 95)"

text \<open>The rest of a string after a literal prefix.\<close>

fun match_literal :: "string \<Rightarrow> string \<Rightarrow> string option" where
  "match_literal [] s = Some s"
| "match_literal (p # ps) [] = None"
| "match_literal (p # ps) (c # cs) = (if p = c then match_literal ps cs else None)"

text \<open>
  \<open>path.match(/^\/api\/tasks\/\w+$/)\<close>, \<open>/^\/api\/tasks\/\w+\/edit$/\<close> and
  \<open>/^\/api\/tasks\/\w+\/toggle$/\<close>, with the literal after \<open>\w+\<close> as \<open>lit\<close>. That literal
  is empty or starts with a slash, which is no word character, so \<open>\w+\<close> can only stand
  for the whole run of word characters after \<open>/api/tasks/\<close>, and the rest of the path must
  be the literal.
\<close>

definition matches_task_path :: "string \<Rightarrow> string \<Rightarrow> bool" where
  "matches_task_path lit path =
     (case match_literal ''/api/tasks/'' path of
        None \<Rightarrow> False
      | Some rest \<Rightarrow> takeWhile isWordChar rest \<noteq> [] \<and> dropWhile isWordChar rest = lit)"

section \<open>Handlers\<close>

text \<open>
  A handler receives \<open>params.id\<close>, which is \<open>undefined\<close> (\<^const>\<open>None\<close>) when the path has no
  such segment; the store has no entry under \<open>undefined\<close>.
\<close>

definition emptyStateHtml :: string where
  \<open>emptyStateHtml =
         ''\<newline>'' @
         ''      <sl-alert variant="neutral" open>\<newline>'' @
         ''        <sl-icon slot="icon" name="info-circle"></sl-icon>\<newline>'' @
         ''        No tasks found. Add your first task above.\<newline>'' @
         ''      </sl-alert>\<newline>'' @
         ''    ''\<close>

definition getTasksHandler :: "TaskService \<Rightarrow> Request \<Rightarrow> Response" where
  "getTasksHandler s req =
     (let filteredTasks = getAllTasks s (req_status req)
      in if length filteredTasks = 0 then htmlResponse emptyStateHtml
         else htmlResponse (concat (map taskToHtml filteredTasks)))"

text \<open>The \<open>catch\<close> blocks of \<open>createTaskHandler\<close> and \<open>updateTaskHandler\<close>; they differ in
  the message of the last response.\<close>

definition catch_response :: "string \<Rightarrow> Error \<Rightarrow> Response" where
  "catch_response unexpected e =
     (if prefix ''Invalid task data:'' (message e)
      then htmlErrorResponse (message e) 400 ''danger''
      else htmlErrorResponse unexpected 500 ''danger'')"

definition createTaskHandler :: "TaskService \<Rightarrow> Request \<Rightarrow> int \<Rightarrow> Response \<times> TaskService" where
  "createTaskHandler s req now =
     (case parseFormData req of
        Inl e \<Rightarrow>
          (catch_response ''Failed to create task due to an unexpected error.'' e, s)
      | Inr formData \<Rightarrow>
          let taskData =
                \<lparr>data_title = JSString (or_else (FormData_get formData ''title'') []),
                 data_description = JSString (or_else (FormData_get formData ''description'') []),
                 data_priority = JSString (or_else (FormData_get formData ''priority'') ''medium'')\<rparr>;
              taskData1 =
                (if \<not> FormData_has formData ''priority''
                 then taskData\<lparr>data_priority := JSString ''medium''\<rparr> else taskData)
          in case createTask s taskData1 None None None now of
               (Inl e, s1) \<Rightarrow>
                 (catch_response ''Failed to create task due to an unexpected error.'' e, s1)
             | (Inr newTask, s1) \<Rightarrow> (htmlResponse (taskToHtml newTask), s1))"

definition getTaskByIdHandler :: "TaskService \<Rightarrow> TaskId option \<Rightarrow> Response" where
  "getTaskByIdHandler s i =
     (case Option.bind i (getTaskById s) of
        None \<Rightarrow> htmlErrorResponse ''Task not found.'' 404 ''danger''
      | Some task \<Rightarrow> htmlResponse (taskToHtml task))"

text \<open>A field that \<open>updateTaskHandler\<close> copies into \<open>validTaskData\<close> only when it is defined.\<close>

fun field_of :: "string option \<Rightarrow> JSValue" where
  "field_of None = JSUndefined"
| "field_of (Some v) = JSString v"

definition updateTaskHandler ::
  "TaskService \<Rightarrow> Request \<Rightarrow> TaskId option \<Rightarrow> Response \<times> TaskService" where
  "updateTaskHandler s req i =
     (case parseFormData req of
        Inl e \<Rightarrow>
          (catch_response ''Failed to update task due to an unexpected error.'' e, s)
      | Inr formData \<Rightarrow>
          let validTaskData =
                \<lparr>data_title = field_of (FormData_get formData ''title''),
                 data_description = field_of (FormData_get formData ''description''),
                 data_priority = field_of (FormData_get formData ''priority'')\<rparr>
          in case (case i of None \<Rightarrow> (Inr None, s) | Some k \<Rightarrow> updateTask s k validTaskData) of
               (Inl e, s1) \<Rightarrow>
                 (catch_response ''Failed to update task due to an unexpected error.'' e, s1)
             | (Inr None, s1) \<Rightarrow> (htmlErrorResponse ''Task not found.'' 404 ''danger'', s1)
             | (Inr (Some updatedTask), s1) \<Rightarrow> (htmlResponse (taskToHtml updatedTask), s1))"

definition deleteTaskHandler :: "TaskService \<Rightarrow> TaskId option \<Rightarrow> Response \<times> TaskService" where
  "deleteTaskHandler s i =
     (case (case i of None \<Rightarrow> (False, s) | Some k \<Rightarrow> deleteTask s k) of
        (success, s1) \<Rightarrow>
          if \<not> success
          then (jsonErrorResponse ''Task not found or could not be deleted.'' 404, s1)
          else (\<lparr>resp_status = 204, resp_headers = DEFAULT_CORS_HEADERS, resp_body = None\<rparr>,
                s1))"

definition getTaskEditFormHandler :: "TaskService \<Rightarrow> TaskId option \<Rightarrow> Response" where
  "getTaskEditFormHandler s i =
     (case Option.bind i (getTaskById s) of
        None \<Rightarrow> htmlErrorResponse ''Task not found.'' 404 ''danger''
      | Some task \<Rightarrow> htmlResponse (taskEditFormHtml task))"

definition toggleTaskHandler :: "TaskService \<Rightarrow> TaskId option \<Rightarrow> Response \<times> TaskService" where
  "toggleTaskHandler s i =
     (case (case i of None \<Rightarrow> (None, s) | Some k \<Rightarrow> toggleTaskCompletion s k) of
        (None, s1) \<Rightarrow> (htmlErrorResponse ''Task not found.'' 404 ''danger'', s1)
      | (Some updatedTask, s1) \<Rightarrow> (htmlResponse (taskToHtml updatedTask), s1))"

text \<open>\<open>handleApiRequest(req, path, method)\<close>; \<open>now\<close> is the clock reading of a
  \<open>new Date()\<close> it may reach.\<close>

definition handleApiRequest ::
  "TaskService \<Rightarrow> Request \<Rightarrow> string \<Rightarrow> string \<Rightarrow> int \<Rightarrow> Response \<times> TaskService" where
  "handleApiRequest s req path method now =
     (if path = ''/api/tasks'' \<and> method = ''GET'' then
        (getTasksHandler s req, s)
      else if path = ''/api/tasks'' \<and> method = ''POST'' then
        createTaskHandler s req now
      else if matches_task_path [] path \<and> method = ''GET'' then
        (getTaskByIdHandler s (params_id (getPathParams ''/api/tasks/:id'' path)), s)
      else if matches_task_path [] path \<and> method = ''PUT'' then
        updateTaskHandler s req (params_id (getPathParams ''/api/tasks/:id'' path))
      else if matches_task_path [] path \<and> method = ''DELETE'' then
        deleteTaskHandler s (params_id (getPathParams ''/api/tasks/:id'' path))
      else if matches_task_path ''/edit'' path \<and> method = ''GET'' then
        (getTaskEditFormHandler s (params_id (getPathParams ''/api/tasks/:id/edit'' path)), s)
      else if matches_task_path ''/toggle'' path \<and> method = ''PUT'' then
        toggleTaskHandler s (params_id (getPathParams ''/api/tasks/:id/toggle'' path))
      else
        (jsonErrorResponse ''API Endpoint Not Found'' 404, s))"

section \<open>Which requests a route takes\<close>

text \<open>
  The guards of \<open>handleApiRequest\<close>, collected: whether one of its routes takes the
  request; and whether the request is a delete, taken by the delete route, of an id that
  is not in the store.
\<close>

definition route_matches :: "string \<Rightarrow> string \<Rightarrow> bool" where
  "route_matches path method =
     ((path = ''/api/tasks'' \<and> (method = ''GET'' \<or> method = ''POST''))
      \<or> (matches_task_path [] path
           \<and> (method = ''GET'' \<or> method = ''PUT'' \<or> method = ''DELETE''))
      \<or> (matches_task_path ''/edit'' path \<and> method = ''GET'')
      \<or> (matches_task_path ''/toggle'' path \<and> method = ''PUT''))"

definition delete_of_missing :: "TaskService \<Rightarrow> string \<Rightarrow> string \<Rightarrow> bool" where
  "delete_of_missing s path method =
     (matches_task_path [] path \<and> method = ''DELETE''
      \<and> Option.bind (params_id (getPathParams ''/api/tasks/:id'' path)) (getTaskById s) = None)"

section \<open>Invariants\<close>

text \<open>
  What holds of the service in every state the running server reaches: the keys of the
  store are distinct, every task is stored under its own id, every id is the decimal form
  of a number below the counter (or of the counter itself, once it has stopped at \<open>2^53\<close>),
  and the counter is at least 4 and at most \<open>2^53\<close>.
\<close>

definition ids_ok :: "TaskService \<Rightarrow> bool" where
  "ids_ok s =
     (distinct (map fst (taskStore s))
      \<and> (\<forall>(k, t) \<in> set (taskStore s).
            task_id t = k
            \<and> (k \<in> set (map toString [0..<nextId s])
                \<or> MAX_SAFE_INTEGER < nextId s \<and> k = toString (nextId s)))
      \<and> 4 \<le> nextId s \<and> nextId s \<le> MAX_SAFE_INTEGER + 1)"

text \<open>A stored title: non-empty, not all white space, trimmed.\<close>

definition title_ok :: "string \<Rightarrow> bool" where
  "title_ok t = (t \<noteq> [] \<and> \<not> list_all isWhiteSpace t \<and> trim t = t)"

definition titles_ok :: "TaskService \<Rightarrow> bool" where
  "titles_ok s = (\<forall>task \<in> set (Map_values (taskStore s)). title_ok (title task))"

text \<open>
  A string in which every \<open><\<close> is followed, inside the string, by two characters other
  than \<open>sc\<close>. Such strings are closed under concatenation, and none contains \<open><script>\<close>.
\<close>

fun lt_guarded :: "string \<Rightarrow> bool" where
  "lt_guarded [] = True"
| "lt_guarded (c # cs) =
     ((c \<noteq> CHR ''<'' \<or>
        (case cs of a # b # _ \<Rightarrow> \<not> (a = CHR ''s'' \<and> b = CHR ''c'') | _ \<Rightarrow> False))
      \<and> lt_guarded cs)"

section \<open>Facts about the store\<close>

lemma Map_get_set_same: "Map_get (Map_set m k v) k = Some v"
  by (simp add: Map_get_def Map_set_def update_conv')

lemma Map_get_set_other: "k' \<noteq> k \<Longrightarrow> Map_get (Map_set m k v) k' = Map_get m k'"
  by (simp add: Map_get_def Map_set_def update_conv')

lemma Map_set_twice: "Map_set (Map_set m k v) k v' = Map_set m k v'"
  by (simp add: Map_set_def)

lemma Map_set_same_value: "Map_get m k = Some v \<Longrightarrow> Map_set m k v = m"
  by (simp add: Map_get_def Map_set_def update_triv)

lemma Map_set_keys_present:
  "Map_get m k = Some v \<Longrightarrow> map fst (Map_set m k v') = map fst m"
  by (auto simp: Map_get_def Map_set_def update_keys dest: map_of_SomeD intro: rev_image_eqI)

lemma Map_set_delete: "AList.delete k (Map_set m k v) = AList.delete k m"
  by (simp add: Map_set_def delete_update_same)

lemma toggle_present:
  "Map_get (taskStore s) i = Some task \<Longrightarrow>
     toggleTaskCompletion s i =
       (Some (task\<lparr>completed := \<not> completed task\<rparr>),
        s\<lparr>taskStore := Map_set (taskStore s) i (task\<lparr>completed := \<not> completed task\<rparr>)\<rparr>)"
  by (simp add: toggleTaskCompletion_def Let_def)

lemma seeded:
  "new_TaskService t1 t2 t3 =
     (Inr (),
      \<lparr>taskStore =
         [(''1'', \<lparr>task_id = ''1'', title = ''Complete the project setup'',
                  description = ''Initial setup for the Shoelace and HTMX demo'',
                  priority = ''medium'', completed = False, createdAt = t1\<rparr>),
          (''2'', \<lparr>task_id = ''2'', title = ''Research Web Components'',
                  description = ''Look into Shoelace and other component libraries'',
                  priority = ''low'', completed = True, createdAt = t2 - 86400000\<rparr>),
          (''3'', \<lparr>task_id = ''3'', title = ''Implement server endpoints'',
                  description = ''Create the API for task management'',
                  priority = ''high'', completed = False, createdAt = t3\<rparr>)],
       nextId = 4\<rparr>)"
  by (simp add: new_TaskService_def seedInitialTasks_def createTask_def initialTasksData_def
      TASK_PRIORITIES_def trim_def isWhiteSpace_def Map_set_def Let_def)

section \<open>Toggling\<close>

text \<open>
  Claim C4. \<open>toggleTaskCompletion\<close> is an involution. For an id that is in the store it
  succeeds: it returns the task with \<open>completed\<close> flipped, and that is the task then stored
  under the id; applied a second time it returns the original task and leaves the service
  exactly as it was at the start. For an id that is not in the store it returns
  \<open>undefined\<close> and changes nothing.
\<close>

theorem toggleTaskCompletion_involution:
  "(\<forall>task. Map_get (taskStore s) i = Some task \<longrightarrow>
      (let (r1, s1) = toggleTaskCompletion s i; (r2, s2) = toggleTaskCompletion s1 i
       in r1 = Some (task\<lparr>completed := \<not> completed task\<rparr>)
          \<and> Map_get (taskStore s1) i = Some (task\<lparr>completed := \<not> completed task\<rparr>)
          \<and> r2 = Some task \<and> s2 = s))
   \<and> (Map_get (taskStore s) i = None \<longrightarrow> toggleTaskCompletion s i = (None, s))"
proof (intro conjI allI impI)
  fix task assume g: "Map_get (taskStore s) i = Some task"
  let ?t = "task\<lparr>completed := \<not> completed task\<rparr>"
  let ?s1 = "s\<lparr>taskStore := Map_set (taskStore s) i ?t\<rparr>"
  have 1: "toggleTaskCompletion s i = (Some ?t, ?s1)" using g by (rule toggle_present)
  have g1: "Map_get (taskStore ?s1) i = Some ?t" by (simp add: Map_get_set_same)
  have 2: "toggleTaskCompletion ?s1 i = (Some task, s)"
    using toggle_present [OF g1] g by (simp add: Map_set_twice Map_set_same_value)
  show "let (r1, s1) = toggleTaskCompletion s i; (r2, s2) = toggleTaskCompletion s1 i
       in r1 = Some ?t \<and> Map_get (taskStore s1) i = Some ?t \<and> r2 = Some task \<and> s2 = s"
    by (simp add: 1 2 Map_get_set_same)
next
  assume "Map_get (taskStore s) i = None"
  then show "toggleTaskCompletion s i = (None, s)"
    by (simp add: toggleTaskCompletion_def)
qed

theorem toggleTaskCompletion_involution_witness:
  "(let s = snd (new_TaskService 1000 2000 3000)
    in Map_get (taskStore s) ''2'' \<noteq> None
       \<and> map_option completed (Map_get (taskStore s) ''2'') = Some True
       \<and> map_option completed (fst (toggleTaskCompletion s ''2'')) = Some False
       \<and> toggleTaskCompletion (snd (toggleTaskCompletion s ''2'')) ''2''
           = (Map_get (taskStore s) ''2'', s)
       \<and> Map_get (taskStore s) ''9'' = None
       \<and> toggleTaskCompletion s ''9'' = (None, s))"
  using toggleTaskCompletion_involution [of "snd (new_TaskService 1000 2000 3000)" "''2''"]
    toggleTaskCompletion_involution [of "snd (new_TaskService 1000 2000 3000)" "''9''"]
  by (simp add: seeded Map_get_def Let_def split: prod.splits)

text \<open>
  Claim C9. For an id in the store, \<open>toggleTaskCompletion\<close> changes only the \<open>completed\<close>
  field of that task: the record stored in its place has the same id, title, description,
  priority and \<open>createdAt\<close>; every other entry of the store, the order of the keys and the
  id counter are unchanged.
\<close>

theorem toggleTaskCompletion_frame:
  "Map_get (taskStore s) i = Some task \<Longrightarrow>
     (case toggleTaskCompletion s i of
        (None, s') \<Rightarrow> False
      | (Some task', s') \<Rightarrow>
          Map_get (taskStore s') i = Some task'
          \<and> completed task' = (\<not> completed task)
          \<and> task_id task' = task_id task \<and> title task' = title task
          \<and> description task' = description task \<and> priority task' = priority task
          \<and> createdAt task' = createdAt task
          \<and> (\<forall>k. k \<noteq> i \<longrightarrow> Map_get (taskStore s') k = Map_get (taskStore s) k)
          \<and> AList.delete i (taskStore s') = AList.delete i (taskStore s)
          \<and> map fst (taskStore s') = map fst (taskStore s)
          \<and> nextId s' = nextId s)"
  by (simp add: toggle_present Map_get_set_same Map_get_set_other Map_set_delete
      Map_set_keys_present)

theorem toggleTaskCompletion_frame_witness:
  "(let s = snd (new_TaskService 1000 2000 3000)
    in Map_get (taskStore s) ''1'' \<noteq> None
       \<and> Map_get (taskStore (snd (toggleTaskCompletion s ''1''))) ''2'' = Map_get (taskStore s) ''2''
       \<and> Map_get (taskStore (snd (toggleTaskCompletion s ''1''))) ''3'' = Map_get (taskStore s) ''3''
       \<and> map_option title (fst (toggleTaskCompletion s ''1'')) = Some ''Complete the project setup''
       \<and> map_option completed (fst (toggleTaskCompletion s ''1'')) = Some True)"
  using toggleTaskCompletion_frame [of "snd (new_TaskService 1000 2000 3000)" "''1''"
      "\<lparr>task_id = ''1'', title = ''Complete the project setup'',
        description = ''Initial setup for the Shoelace and HTMX demo'',
        priority = ''medium'', completed = False, createdAt = 1000\<rparr>"]
  by (simp add: seeded Map_get_def Let_def split: prod.splits option.splits)

section \<open>Validation in \<open>updateTask\<close>\<close>

lemma prefix_priority_message: "prefix ''Invalid task data:'' priority_message"
  by (simp add: priority_message_def)

lemma Array_includes_TASK_PRIORITIES:
  "Array_includes TASK_PRIORITIES v
     = (v \<in> {JSString ''low'', JSString ''medium'', JSString ''high''})"
  by (cases v) (auto simp: TASK_PRIORITIES_def)

text \<open>
  Claim C10. \<open>updateTask\<close> is atomic on a validation failure. For an id in the store, when
  the data has a title that is not a string or is empty after trimming, or a priority
  other than \<open>low\<close>, \<open>medium\<close> and \<open>high\<close>, or a description that is not a string (each only
  when the field is present), \<open>updateTask\<close> throws an error whose message starts with
  \<open>Invalid task data:\<close>, and the service is exactly as it was before the call.
\<close>

theorem updateTask_validation_atomic:
  "Map_get (taskStore s) i = Some task \<Longrightarrow>
   (data_title d \<noteq> JSUndefined
      \<and> (case data_title d of JSString t \<Rightarrow> trim t = [] | _ \<Rightarrow> True))
   \<or> (data_priority d \<noteq> JSUndefined
      \<and> data_priority d \<notin> {JSString ''low'', JSString ''medium'', JSString ''high''})
   \<or> (data_description d \<noteq> JSUndefined
      \<and> (case data_description d of JSString t \<Rightarrow> False | _ \<Rightarrow> True)) \<Longrightarrow>
   (case updateTask s i d of
      (Inl e, s') \<Rightarrow> prefix ''Invalid task data:'' (message e) \<and> s' = s
    | (Inr r, s') \<Rightarrow> False)"
proof -
  assume present: "Map_get (taskStore s) i = Some task"
  assume bad:
    "(data_title d \<noteq> JSUndefined
      \<and> (case data_title d of JSString t \<Rightarrow> trim t = [] | _ \<Rightarrow> True))
   \<or> (data_priority d \<noteq> JSUndefined
      \<and> data_priority d \<notin> {JSString ''low'', JSString ''medium'', JSString ''high''})
   \<or> (data_description d \<noteq> JSUndefined
      \<and> (case data_description d of JSString t \<Rightarrow> False | _ \<Rightarrow> True))"
  have title: "update_title_invalid (data_title d)
      = (data_title d \<noteq> JSUndefined
         \<and> (case data_title d of JSString t \<Rightarrow> trim t = [] | _ \<Rightarrow> True))"
    by (cases "data_title d") simp_all
  have descr: "not_string (data_description d)
      = (case data_description d of JSString t \<Rightarrow> False | _ \<Rightarrow> True)"
    by (cases "data_description d") simp_all
  from bad show ?thesis
    unfolding updateTask_def present title [symmetric] descr [symmetric]
      Array_includes_TASK_PRIORITIES [symmetric]
    by (auto simp: prefix_priority_message)
qed

theorem updateTask_validation_atomic_witness:
  "(let s = snd (new_TaskService 1000 2000 3000);
        d = \<lparr>data_title = JSString ''   '', data_description = JSUndefined,
             data_priority = JSUndefined\<rparr>
    in Map_get (taskStore s) ''3'' \<noteq> None
       \<and> data_title d \<noteq> JSUndefined \<and> trim ''   '' = []
       \<and> updateTask s ''3'' d
           = (Inl (Error ''Invalid task data: Title cannot be empty.''), s))"
  using updateTask_validation_atomic [of "snd (new_TaskService 1000 2000 3000)" "''3''"
      "\<lparr>task_id = ''3'', title = ''Implement server endpoints'',
        description = ''Create the API for task management'',
        priority = ''high'', completed = False, createdAt = 3000\<rparr>"
      "\<lparr>data_title = JSString ''   '', data_description = JSUndefined,
        data_priority = JSUndefined\<rparr>"]
  by (simp add: seeded Map_get_def Let_def updateTask_def trim_def isWhiteSpace_def)

section \<open>Trimming and decimal digits\<close>

lemma last_dropWhile_nonempty:
  "dropWhile P xs \<noteq> [] \<Longrightarrow> last (dropWhile P xs) = last xs"
  by (induction xs) (auto split: if_splits)

lemma dropWhile_id_hd: "xs \<noteq> [] \<Longrightarrow> \<not> P (hd xs) \<Longrightarrow> dropWhile P xs = xs"
  by (cases xs) auto

lemma trim_hd: assumes "trim s \<noteq> []" shows "\<not> isWhiteSpace (hd (trim s))"
proof -
  let ?u = "dropWhile isWhiteSpace s"
  let ?r = "dropWhile isWhiteSpace (rev ?u)"
  from assms have r: "?r \<noteq> []" by (simp add: trim_def)
  have u: "?u \<noteq> []"
  proof
    assume e: "?u = []"
    have "?r = []" by (simp only: e rev.simps dropWhile.simps)
    with r show False ..
  qed
  have "hd (trim s) = last ?r" using r by (simp add: trim_def hd_rev)
  also have "\<dots> = last (rev ?u)" using r by (rule last_dropWhile_nonempty)
  also have "\<dots> = hd ?u" using u by (simp add: last_rev)
  finally show ?thesis using u hd_dropWhile [of isWhiteSpace s] by simp
qed

lemma trim_last: assumes "trim s \<noteq> []" shows "\<not> isWhiteSpace (last (trim s))"
proof -
  let ?r = "dropWhile isWhiteSpace (rev (dropWhile isWhiteSpace s))"
  from assms have r: "?r \<noteq> []" by (simp add: trim_def)
  have "last (trim s) = hd ?r" using r by (simp add: trim_def last_rev)
  then show ?thesis using r hd_dropWhile [of isWhiteSpace "rev (dropWhile isWhiteSpace s)"] by simp
qed

lemma trim_fixed:
  assumes "x \<noteq> []" "\<not> isWhiteSpace (hd x)" "\<not> isWhiteSpace (last x)"
  shows "trim x = x"
proof -
  have 1: "dropWhile isWhiteSpace x = x" using assms by (simp add: dropWhile_id_hd)
  have 2: "dropWhile isWhiteSpace (rev x) = rev x"
    using assms by (simp add: dropWhile_id_hd hd_rev)
  show ?thesis by (simp add: trim_def 1 2)
qed

lemma trim_idem: "trim (trim s) = trim s"
proof (cases "trim s = []")
  case True
  have "trim [] = []" by (simp add: trim_def)
  with True show ?thesis by simp
next
  case False then show ?thesis by (intro trim_fixed trim_hd trim_last)
qed

lemma trim_not_blank: assumes "trim s \<noteq> []" shows "\<not> list_all isWhiteSpace (trim s)"
proof
  assume "list_all isWhiteSpace (trim s)"
  moreover have "hd (trim s) \<in> set (trim s)" using assms by simp
  ultimately have "isWhiteSpace (hd (trim s))" by (simp add: list_all_iff)
  with trim_hd [OF assms] show False by simp
qed

lemma toString_nonempty: "toString n \<noteq> []"
  by (subst toString.simps) simp

lemma digit_inj: assumes "a < 10" "b < 10" "digit a = digit b" shows "a = b"
proof -
  have "(of_char (digit a) :: nat) = of_char (digit b)" using assms(3) by simp
  then show ?thesis using assms(1,2) by (simp add: digit_def)
qed

lemma toString_inj: "toString a = toString b \<Longrightarrow> a = b"
proof (induction a arbitrary: b rule: toString.induct)
  case (1 n)
  show ?case
  proof (cases "n < 10")
    case True
    show ?thesis
    proof (cases "b < 10")
      case True
      with \<open>n < 10\<close> "1.prems" show ?thesis
        by (simp add: toString.simps [of n] toString.simps [of b] digit_inj)
    next
      case False
      with \<open>n < 10\<close> "1.prems" toString_nonempty [of "b div 10"] show ?thesis
        by (simp add: toString.simps [of n] toString.simps [of b])
    qed
  next
    case False
    show ?thesis
    proof (cases "b < 10")
      case True
      with \<open>\<not> n < 10\<close> "1.prems" toString_nonempty [of "n div 10"] show ?thesis
        by (simp add: toString.simps [of n] toString.simps [of b])
    next
      case b: False
      from False b "1.prems" have e: "toString (n div 10) = toString (b div 10)"
        and d: "digit (n mod 10) = digit (b mod 10)"
        by (simp_all add: toString.simps [of n] toString.simps [of b])
      from "1.IH" [OF False e] have "n div 10 = b div 10" .
      moreover from d have "n mod 10 = b mod 10" by (simp add: digit_inj)
      ultimately show ?thesis by (metis div_mult_mod_eq)
    qed
  qed
qed


section \<open>Reachable states of the service\<close>

lemma update_absent: "k \<notin> fst ` set al \<Longrightarrow> AList.update k v al = al @ [(k, v)]"
  by (induction al) auto

lemma set_update_subset: "set (AList.update k v al) \<subseteq> insert (k, v) (set al)"
  by (induction al) auto

lemma set_delete_subset: "set (AList.delete k al) \<subseteq> set al"
  by (auto simp: AList.delete_eq)

lemma createTask_cases:
  "createTask s d None None None now = (r, s') \<Longrightarrow>
     ((\<exists>e. r = Inl e) \<and> s' = s)
     \<or> (\<exists>task. r = Inr task \<and> task_id task = toString (nextId s)
           \<and> title task = trim (string_of (data_title d))
           \<and> \<not> create_title_invalid (data_title d)
           \<and> s' = \<lparr>taskStore = Map_set (taskStore s) (toString (nextId s)) task,
                    nextId = increment (nextId s)\<rparr>)"
  by (auto simp: createTask_def Let_def split: if_splits)

lemma updateTask_cases:
  "updateTask s i d = (r, s') \<Longrightarrow>
     s' = s
     \<or> (\<exists>task u. Map_get (taskStore s) i = Some task \<and> r = Inr (Some u)
           \<and> task_id u = task_id task
           \<and> (title u = title task
               \<or> title u = trim (string_of (data_title d))
                  \<and> \<not> update_title_invalid (data_title d) \<and> data_title d \<noteq> JSUndefined)
           \<and> s' = s\<lparr>taskStore := Map_set (taskStore s) i u\<rparr>)"
  by (auto simp: updateTask_def Let_def split: if_splits option.splits)

lemma toggleTaskCompletion_cases:
  assumes "toggleTaskCompletion s i = (r, s')"
  shows "s' = s
     \<or> (\<exists>task u. Map_get (taskStore s) i = Some task
           \<and> task_id u = task_id task \<and> title u = title task
           \<and> s' = s\<lparr>taskStore := Map_set (taskStore s) i u\<rparr>)"
proof (cases "Map_get (taskStore s) i")
  case None
  with assms show ?thesis by (simp add: toggleTaskCompletion_def)
next
  case (Some task)
  let ?u = "task\<lparr>completed := \<not> completed task\<rparr>"
  from assms toggle_present [OF Some]
  have "s' = s\<lparr>taskStore := Map_set (taskStore s) i ?u\<rparr>" by simp
  moreover have "task_id ?u = task_id task" "title ?u = title task" by simp_all
  ultimately show ?thesis using Some by blast
qed

lemma deleteTask_state: "snd (deleteTask s i) = s\<lparr>taskStore := AList.delete i (taskStore s)\<rparr>"
  by (simp add: deleteTask_def Map_delete_def)

lemma ids_ok_fresh:
  assumes "ids_ok s" and "nextId s \<le> MAX_SAFE_INTEGER"
  shows "toString (nextId s) \<notin> fst ` set (taskStore s)"
proof
  assume "toString (nextId s) \<in> fst ` set (taskStore s)"
  then obtain t where "(toString (nextId s), t) \<in> set (taskStore s)" by auto
  with assms have "toString (nextId s) \<in> set (map toString [0..<nextId s])"
    by (auto simp: ids_ok_def)
  then obtain n where "n < nextId s" "toString (nextId s) = toString n" by auto
  then show False using toString_inj by blast
qed

lemma ids_ok_replace:
  assumes inv: "ids_ok s" and g: "Map_get (taskStore s) i = Some task"
    and u: "task_id u = task_id task"
  shows "ids_ok (s\<lparr>taskStore := Map_set (taskStore s) i u\<rparr>)"
proof -
  from g have mem: "(i, task) \<in> set (taskStore s)" by (simp add: Map_get_def map_of_SomeD)
  with inv have i: "task_id task = i"
    "i \<in> set (map toString [0..<nextId s])
       \<or> MAX_SAFE_INTEGER < nextId s \<and> i = toString (nextId s)"
    by (auto simp: ids_ok_def)
  have "set (Map_set (taskStore s) i u) \<subseteq> insert (i, u) (set (taskStore s))"
    by (simp add: Map_set_def set_update_subset)
  moreover have "distinct (map fst (Map_set (taskStore s) i u))"
    using inv by (simp add: Map_set_def ids_ok_def distinct_update)
  ultimately show ?thesis using inv i u by (auto simp: ids_ok_def)
qed

lemma ids_ok_create:
  assumes inv: "ids_ok s" and t: "task_id task = toString (nextId s)"
  shows "ids_ok \<lparr>taskStore = Map_set (taskStore s) (toString (nextId s)) task,
                 nextId = increment (nextId s)\<rparr>"
proof (cases "nextId s \<le> MAX_SAFE_INTEGER")
  case True
  have st: "Map_set (taskStore s) (toString (nextId s)) task
              = taskStore s @ [(toString (nextId s), task)]"
    using ids_ok_fresh [OF inv True] by (simp add: Map_set_def update_absent)
  show ?thesis
    using inv ids_ok_fresh [OF inv True] t True
    unfolding st ids_ok_def increment_def by auto
next
  case False
  with inv have top: "MAX_SAFE_INTEGER < nextId s" "increment (nextId s) = nextId s"
    by (simp_all add: increment_def)
  have "set (Map_set (taskStore s) (toString (nextId s)) task)
          \<subseteq> insert (toString (nextId s), task) (set (taskStore s))"
    by (simp add: Map_set_def set_update_subset)
  moreover have "distinct (map fst (Map_set (taskStore s) (toString (nextId s)) task))"
    using inv by (simp add: Map_set_def ids_ok_def distinct_update)
  ultimately show ?thesis using inv t top by (auto simp: ids_ok_def)
qed

lemma ids_ok_step: assumes inv: "ids_ok s" shows "ids_ok (step s op)"
proof (cases op)
  case (Create d now)
  obtain r s' where c: "createTask s d None None None now = (r, s')"
    by (cases "createTask s d None None None now")
  from createTask_cases [OF c] have "ids_ok s'"
    using inv ids_ok_create by auto
  with c Create show ?thesis by simp
next
  case (Update i d)
  obtain r s' where c: "updateTask s i d = (r, s')" by (cases "updateTask s i d")
  from updateTask_cases [OF c] have "ids_ok s'" using inv ids_ok_replace by blast
  with c Update show ?thesis by simp
next
  case (Toggle i)
  obtain r s' where c: "toggleTaskCompletion s i = (r, s')" by (cases "toggleTaskCompletion s i")
  from toggleTaskCompletion_cases [OF c] have "ids_ok s'" using inv ids_ok_replace by blast
  with c Toggle show ?thesis by simp
next
  case (Delete i)
  have "ids_ok (s\<lparr>taskStore := AList.delete i (taskStore s)\<rparr>)"
    using inv set_delete_subset [of i "taskStore s"]
    by (auto simp: ids_ok_def distinct_delete)
  with Delete show ?thesis by (simp add: deleteTask_state)
qed

lemma ids_ok_run: "ids_ok s \<Longrightarrow> ids_ok (run s ops)"
  by (induction ops arbitrary: s) (simp_all add: ids_ok_step)


lemma title_ok_trim: "trim t \<noteq> [] \<Longrightarrow> title_ok (trim t)"
  by (simp add: title_ok_def trim_not_blank trim_idem)

lemma titles_ok_replace:
  assumes "titles_ok s" "title_ok (title u)"
  shows "titles_ok (s\<lparr>taskStore := Map_set (taskStore s) i u\<rparr>)"
proof -
  have "set (Map_set (taskStore s) i u) \<subseteq> insert (i, u) (set (taskStore s))"
    by (simp add: Map_set_def set_update_subset)
  with assms show ?thesis by (auto simp: titles_ok_def Map_values_def)
qed

lemma create_title_valid:
  "\<not> create_title_invalid v \<Longrightarrow> trim (string_of v) \<noteq> []"
  by (cases v) auto

lemma update_title_valid:
  "\<not> update_title_invalid v \<Longrightarrow> v \<noteq> JSUndefined \<Longrightarrow> trim (string_of v) \<noteq> []"
  by (cases v) auto

lemma titles_ok_step: assumes inv: "titles_ok s" shows "titles_ok (step s op)"
proof (cases op)
  case (Create d now)
  obtain r s' where c: "createTask s d None None None now = (r, s')"
    by (cases "createTask s d None None None now")
  from createTask_cases [OF c] have "titles_ok s'"
  proof
    assume "(\<exists>e. r = Inl e) \<and> s' = s"
    with inv show ?thesis by simp
  next
    assume "\<exists>task. r = Inr task \<and> task_id task = toString (nextId s)
           \<and> title task = trim (string_of (data_title d))
           \<and> \<not> create_title_invalid (data_title d)
           \<and> s' = \<lparr>taskStore = Map_set (taskStore s) (toString (nextId s)) task,
                    nextId = increment (nextId s)\<rparr>"
    then obtain task where t: "title task = trim (string_of (data_title d))"
      and v: "\<not> create_title_invalid (data_title d)"
      and s': "s' = \<lparr>taskStore = Map_set (taskStore s) (toString (nextId s)) task,
                    nextId = increment (nextId s)\<rparr>" by blast
    from t v have "title_ok (title task)" by (simp add: title_ok_trim create_title_valid)
    from titles_ok_replace [OF inv this, of "toString (nextId s)"]
    show ?thesis by (simp add: s' titles_ok_def)
  qed
  with c Create show ?thesis by simp
next
  case (Update i d)
  obtain r s' where c: "updateTask s i d = (r, s')" by (cases "updateTask s i d")
  from updateTask_cases [OF c] have "titles_ok s'"
  proof
    assume "s' = s" with inv show ?thesis by simp
  next
    assume "\<exists>task u. Map_get (taskStore s) i = Some task \<and> r = Inr (Some u)
           \<and> task_id u = task_id task
           \<and> (title u = title task
               \<or> title u = trim (string_of (data_title d))
                  \<and> \<not> update_title_invalid (data_title d) \<and> data_title d \<noteq> JSUndefined)
           \<and> s' = s\<lparr>taskStore := Map_set (taskStore s) i u\<rparr>"
    then obtain task u where g: "Map_get (taskStore s) i = Some task"
      and t: "title u = title task
               \<or> title u = trim (string_of (data_title d))
                  \<and> \<not> update_title_invalid (data_title d) \<and> data_title d \<noteq> JSUndefined"
      and s': "s' = s\<lparr>taskStore := Map_set (taskStore s) i u\<rparr>" by blast
    from g have "task \<in> set (Map_values (taskStore s))"
      by (force simp: Map_get_def Map_values_def dest: map_of_SomeD)
    with inv have "title_ok (title task)" by (simp add: titles_ok_def)
    with t have "title_ok (title u)" by (auto simp: title_ok_trim update_title_valid)
    with inv show ?thesis unfolding s' by (rule titles_ok_replace)
  qed
  with c Update show ?thesis by simp
next
  case (Toggle i)
  obtain r s' where c: "toggleTaskCompletion s i = (r, s')" by (cases "toggleTaskCompletion s i")
  from toggleTaskCompletion_cases [OF c] have "titles_ok s'"
  proof
    assume "s' = s" with inv show ?thesis by simp
  next
    assume "\<exists>task u. Map_get (taskStore s) i = Some task
           \<and> task_id u = task_id task \<and> title u = title task
           \<and> s' = s\<lparr>taskStore := Map_set (taskStore s) i u\<rparr>"
    then obtain task u where g: "Map_get (taskStore s) i = Some task"
      and t: "title u = title task"
      and s': "s' = s\<lparr>taskStore := Map_set (taskStore s) i u\<rparr>" by blast
    from g have "task \<in> set (Map_values (taskStore s))"
      by (force simp: Map_get_def Map_values_def dest: map_of_SomeD)
    with inv t have "title_ok (title u)" by (simp add: titles_ok_def)
    with inv show ?thesis unfolding s' by (rule titles_ok_replace)
  qed
  with c Toggle show ?thesis by simp
next
  case (Delete i)
  have "titles_ok (s\<lparr>taskStore := AList.delete i (taskStore s)\<rparr>)"
    using inv set_delete_subset [of i "taskStore s"]
    by (auto simp: titles_ok_def Map_values_def)
  with Delete show ?thesis by (simp add: deleteTask_state)
qed

lemma titles_ok_run: "titles_ok s \<Longrightarrow> titles_ok (run s ops)"
  by (induction ops arbitrary: s) (simp_all add: titles_ok_step)

lemma seed_ids: "toString 1 = ''1''" "toString 2 = ''2''" "toString 3 = ''3''"
  by code_simp+

lemma seed_ids_below_4:
  "''1'' \<in> toString ` {0..<4}" "''2'' \<in> toString ` {0..<4}" "''3'' \<in> toString ` {0..<4}"
proof -
  have "toString 1 \<in> toString ` {0..<4}" "toString 2 \<in> toString ` {0..<4}"
    "toString 3 \<in> toString ` {0..<4}" by simp_all
  then show "''1'' \<in> toString ` {0..<4}" "''2'' \<in> toString ` {0..<4}"
    "''3'' \<in> toString ` {0..<4}" by (simp_all only: seed_ids)
qed

lemma ids_ok_seeded: "ids_ok (snd (new_TaskService t1 t2 t3))"
  by (simp add: seeded ids_ok_def seed_ids_below_4 MAX_SAFE_INTEGER_def)

lemma titles_ok_seeded: "titles_ok (snd (new_TaskService t1 t2 t3))"
  by (simp add: seeded titles_ok_def title_ok_def Map_values_def trim_def isWhiteSpace_def)

lemma increment_bounds: "n \<le> increment n" "increment n \<le> Suc n"
  by (simp_all add: increment_def)

lemma nextId_step: "nextId s \<le> nextId (step s op)" "nextId (step s op) \<le> Suc (nextId s)"
  using increment_bounds [of "nextId s"]
  by (cases op;
      auto simp: createTask_def updateTask_def toggleTaskCompletion_def deleteTask_state Let_def
        split: if_splits option.splits)+

lemma nextId_run: "nextId (run s ops) \<le> nextId s + length ops"
proof (induction ops arbitrary: s)
  case Nil
  show ?case by simp
next
  case (Cons op ops)
  have "nextId (run (step s op) ops) \<le> nextId (step s op) + length ops" by (rule Cons.IH)
  also have "\<dots> \<le> Suc (nextId s) + length ops" using nextId_step(2) [of s op] by simp
  finally show ?case by simp
qed

lemma seed_ids_not_fresh:
  assumes "4 \<le> n" shows "toString n \<notin> {''1'', ''2'', ''3''}"
proof
  assume "toString n \<in> {''1'', ''2'', ''3''}"
  then have "toString n = toString 1 \<or> toString n = toString 2 \<or> toString n = toString 3"
    unfolding seed_ids by blast
  then have "n = 1 \<or> n = 2 \<or> n = 3" using toString_inj by blast
  with assms show False by simp
qed

lemma run_append: "run s (xs @ ys) = run (run s xs) ys"
  by (induction xs arbitrary: s) simp_all

lemma createTask_valid:
  assumes "\<not> create_title_invalid (data_title d)"
    and "Array_includes TASK_PRIORITIES (data_priority d)"
    and "\<not> not_string (data_description d)"
  shows "\<exists>task. createTask s d None None None now
           = (Inr task, \<lparr>taskStore = Map_set (taskStore s) (toString (nextId s)) task,
                         nextId = increment (nextId s)\<rparr>)
         \<and> task_id task = toString (nextId s)"
  using assms by (simp add: createTask_def Let_def)

lemma step_Create_valid:
  assumes "\<not> create_title_invalid (data_title d)"
    and "Array_includes TASK_PRIORITIES (data_priority d)"
    and "\<not> not_string (data_description d)"
  shows "nextId (step s (Create d now)) = increment (nextId s)"
    and "fst ` set (taskStore (step s (Create d now)))
           = insert (toString (nextId s)) (fst ` set (taskStore s))"
proof -
  from createTask_valid [OF assms, of s now] obtain task
    where c: "createTask s d None None None now
           = (Inr task, \<lparr>taskStore = Map_set (taskStore s) (toString (nextId s)) task,
                         nextId = increment (nextId s)\<rparr>)" by blast
  show "nextId (step s (Create d now)) = increment (nextId s)" by (simp add: c)
  have "fst ` set (Map_set (taskStore s) (toString (nextId s)) task)
          = insert (toString (nextId s)) (fst ` set (taskStore s))"
    unfolding Map_set_def dom_update by simp
  then show "fst ` set (taskStore (step s (Create d now)))
           = insert (toString (nextId s)) (fst ` set (taskStore s))" by (simp add: c)
qed

lemma nextId_creates:
  assumes "\<not> create_title_invalid (data_title d)"
    and "Array_includes TASK_PRIORITIES (data_priority d)"
    and "\<not> not_string (data_description d)"
  shows "nextId s \<le> MAX_SAFE_INTEGER + 1 \<Longrightarrow>
         nextId (run s (replicate k (Create d now)))
           = min (nextId s + k) (MAX_SAFE_INTEGER + 1)"
proof (induction k arbitrary: s)
  case 0
  then show ?case by simp
next
  case (Suc k)
  have n: "nextId (step s (Create d now)) = increment (nextId s)"
    by (rule step_Create_valid [OF assms])
  with Suc.prems have "nextId (step s (Create d now)) \<le> MAX_SAFE_INTEGER + 1"
    by (simp add: increment_def)
  from Suc.IH [OF this] n Suc.prems show ?case by (simp add: increment_def)
qed

text \<open>
  The state in which an id is assigned twice: \<open>k\<close> creates that take the counter to
  \<open>2^53\<close>, and one more, which assigns \<open>2^53\<close> and leaves the counter there.
\<close>

lemma counter_stuck:
  assumes valid: "\<not> create_title_invalid (data_title d)"
      "Array_includes TASK_PRIORITIES (data_priority d)"
      "\<not> not_string (data_description d)"
    and k: "nextId s0 + k = MAX_SAFE_INTEGER + 1"
    and s: "s = run s0 (replicate (Suc k) (Create d now))"
  shows "nextId s = MAX_SAFE_INTEGER + 1"
    and "toString (MAX_SAFE_INTEGER + 1) \<in> fst ` set (taskStore s)"
    and "\<exists>task s'. createTask s d None None None now' = (Inr task, s')
           \<and> task_id task = toString (MAX_SAFE_INTEGER + 1)
           \<and> nextId s' = MAX_SAFE_INTEGER + 1"
proof -
  let ?s1 = "run s0 (replicate k (Create d now))"
  from k have "nextId s0 \<le> MAX_SAFE_INTEGER + 1" by simp
  from nextId_creates [OF valid this, of k now] k
  have n1: "nextId ?s1 = MAX_SAFE_INTEGER + 1" by simp
  have "replicate (Suc k) (Create d now) = replicate k (Create d now) @ [Create d now]"
    by (simp add: replicate_append_same)
  then have s1: "s = step ?s1 (Create d now)" by (simp only: s run_append run.simps)
  show n: "nextId s = MAX_SAFE_INTEGER + 1"
    unfolding s1 step_Create_valid(1) [OF valid] n1 by (simp add: increment_def)
  show "toString (MAX_SAFE_INTEGER + 1) \<in> fst ` set (taskStore s)"
    unfolding s1 step_Create_valid(2) [OF valid] n1 by simp
  from createTask_valid [OF valid, of s now'] n
  show "\<exists>task s'. createTask s d None None None now' = (Inr task, s')
           \<and> task_id task = toString (MAX_SAFE_INTEGER + 1)
           \<and> nextId s' = MAX_SAFE_INTEGER + 1"
    by (auto simp: increment_def)
qed

text \<open>
  Claim C3, as the code has it. After seeding, the store holds the ids \<open>1\<close>, \<open>2\<close>, \<open>3\<close> and
  the counter is 4. After any sequence of create, update, toggle and delete calls: the
  keys of the store are pairwise distinct and each task is stored under its own id (one
  task per id); the counter is at least its initial value, at most that value plus the
  number of calls, at most \<open>2^53\<close>, and no call decreases it; and a create either throws and
  changes nothing, or assigns the decimal form of the counter as the id, which is none of
  the seed ids. As long as the counter is below \<open>2^53\<close>, which it is after fewer than
  \<open>2^53 - 4\<close> calls, the create increments the counter, the id it assigns is not a key of
  the store before the call, and the new task is appended under it.
\<close>

theorem createTask_ids_fresh:
  "(let s0 = snd (new_TaskService t1 t2 t3); s = run s0 ops
    in map fst (taskStore s0) = [''1'', ''2'', ''3''] \<and> nextId s0 = 4
       \<and> distinct (map fst (taskStore s))
       \<and> (\<forall>(k, t) \<in> set (taskStore s). task_id t = k)
       \<and> nextId s0 \<le> nextId s
       \<and> nextId s \<le> nextId s0 + length ops
       \<and> nextId s \<le> 9007199254740992
       \<and> (\<forall>op. nextId s \<le> nextId (step s op))
       \<and> (\<forall>d now.
            case createTask s d None None None now of
              (Inl e, s') \<Rightarrow> s' = s
            | (Inr task, s') \<Rightarrow>
                task_id task = toString (nextId s)
                \<and> task_id task \<notin> {''1'', ''2'', ''3''}
                \<and> (nextId s < 9007199254740992 \<longrightarrow>
                     nextId s' = nextId s + 1
                     \<and> task_id task \<notin> fst ` set (taskStore s)
                     \<and> taskStore s' = taskStore s @ [(task_id task, task)])))"
proof -
  let ?init = "snd (new_TaskService t1 t2 t3)"
  let ?s = "run ?init ops"
  have inv: "ids_ok ?s" by (simp add: ids_ok_seeded ids_ok_run)
  have ge: "4 \<le> nextId ?s" using inv by (simp add: ids_ok_def)
  have le: "nextId ?s \<le> 9007199254740992"
    using inv by (simp add: ids_ok_def MAX_SAFE_INTEGER_def)
  have create: "case createTask ?s d None None None now of
              (Inl e, s') \<Rightarrow> s' = ?s
            | (Inr task, s') \<Rightarrow>
                task_id task = toString (nextId ?s)
                \<and> task_id task \<notin> {''1'', ''2'', ''3''}
                \<and> (nextId ?s < 9007199254740992 \<longrightarrow>
                     nextId s' = nextId ?s + 1
                     \<and> task_id task \<notin> fst ` set (taskStore ?s)
                     \<and> taskStore s' = taskStore ?s @ [(task_id task, task)])" for d now
  proof -
    obtain r s' where c: "createTask ?s d None None None now = (r, s')"
      by (cases "createTask ?s d None None None now")
    from createTask_cases [OF c] show ?thesis
    proof
      assume "(\<exists>e. r = Inl e) \<and> s' = ?s"
      with c show ?thesis by auto
    next
      assume "\<exists>task. r = Inr task \<and> task_id task = toString (nextId ?s)
           \<and> title task = trim (string_of (data_title d))
           \<and> \<not> create_title_invalid (data_title d)
           \<and> s' = \<lparr>taskStore = Map_set (taskStore ?s) (toString (nextId ?s)) task,
                    nextId = increment (nextId ?s)\<rparr>"
      then obtain task where r: "r = Inr task" and t: "task_id task = toString (nextId ?s)"
        and s': "s' = \<lparr>taskStore = Map_set (taskStore ?s) (toString (nextId ?s)) task,
                    nextId = increment (nextId ?s)\<rparr>" by blast
      have below: "nextId s' = nextId ?s + 1
                     \<and> task_id task \<notin> fst ` set (taskStore ?s)
                     \<and> taskStore s' = taskStore ?s @ [(task_id task, task)]"
        if "nextId ?s < 9007199254740992"
      proof -
        from that have safe: "nextId ?s \<le> MAX_SAFE_INTEGER"
          by (simp add: MAX_SAFE_INTEGER_def)
        have fresh: "toString (nextId ?s) \<notin> fst ` set (taskStore ?s)"
          using inv safe by (rule ids_ok_fresh)
        then have "Map_set (taskStore ?s) (toString (nextId ?s)) task
                = taskStore ?s @ [(toString (nextId ?s), task)]"
          by (simp add: Map_set_def update_absent)
        with fresh safe t s' show ?thesis by (simp add: increment_def)
      qed
      with r t seed_ids_not_fresh [OF ge] show ?thesis unfolding c by simp
    qed
  qed
  have init: "map fst (taskStore ?init) = [''1'', ''2'', ''3'']" "nextId ?init = 4"
    by (simp_all add: seeded)
  with ge have mono: "nextId ?init \<le> nextId ?s" by simp
  have len: "nextId ?s \<le> nextId ?init + length ops" by (rule nextId_run)
  have keys: "\<forall>(k, t) \<in> set (taskStore ?s). task_id t = k" using inv by (auto simp: ids_ok_def)
  have dist: "distinct (map fst (taskStore ?s))" using inv by (simp add: ids_ok_def)
  show ?thesis
    unfolding Let_def using init dist keys mono len le nextId_step(1) create by blast
qed

theorem createTask_ids_fresh_witness:
  "(let d = \<lparr>data_title = JSString ''Buy milk'', data_description = JSString [],
              data_priority = JSString ''low''\<rparr>;
        s = run (snd (new_TaskService 1000 2000 3000)) [Create d 5000, Delete ''2''];
        s' = snd (createTask s d None None None 6000)
    in map fst (taskStore s) = [''1'', ''3'', ''4''] \<and> nextId s = 5
       \<and> nextId s < 9007199254740992
       \<and> map task_id (Map_values (taskStore s)) = [''1'', ''3'', ''4'']
       \<and> map fst (taskStore s') = [''1'', ''3'', ''4'', ''5''] \<and> nextId s' = 6
       \<and> distinct (map fst (taskStore s')))"
proof -
  define d where "d = \<lparr>data_title = JSString ''Buy milk'', data_description = JSString [],
              data_priority = JSString ''low''\<rparr>"
  define s where "s = run (snd (new_TaskService 1000 2000 3000)) [Create d 5000, Delete ''2'']"
  define s' where "s' = snd (createTask s d None None None 6000)"
  have digits: "toString 4 = ''4''" "toString 5 = ''5''" by code_simp+
  have s: "map fst (taskStore s) = [''1'', ''3'', ''4'']" "nextId s = 5"
    "map task_id (Map_values (taskStore s)) = [''1'', ''3'', ''4'']"
    by (simp_all add: s_def d_def seeded digits createTask_def deleteTask_def Map_delete_def
        Map_set_def Map_values_def TASK_PRIORITIES_def trim_def isWhiteSpace_def Let_def
        increment_def MAX_SAFE_INTEGER_def)
  have s': "s' = run (snd (new_TaskService 1000 2000 3000))
                  [Create d 5000, Delete ''2'', Create d 6000]"
    by (simp add: s'_def s_def)
  have "distinct (map fst (taskStore s'))"
    using createTask_ids_fresh [of 1000 2000 3000 "[Create d 5000, Delete ''2'', Create d 6000]"]
    unfolding Let_def s' by blast
  moreover have "map fst (taskStore s') = [''1'', ''3'', ''4'', ''5'']" "nextId s' = 6"
    by (simp_all add: s' d_def seeded digits createTask_def deleteTask_def Map_delete_def
        Map_set_def Map_values_def TASK_PRIORITIES_def trim_def isWhiteSpace_def Let_def
        increment_def MAX_SAFE_INTEGER_def)
  ultimately show ?thesis
    unfolding Let_def d_def [symmetric] s_def [symmetric] s'_def [symmetric] using s by simp
qed

text \<open>
  Without the bound the claim fails. After \<open>2^53 - 3\<close> creates the counter is \<open>2^53\<close> and
  the id \<open>9007199254740992\<close> is in the store; the next create assigns that id again and
  leaves the counter where it is.
\<close>

theorem createTask_id_reused:
  "(let d = \<lparr>data_title = JSString ''x'', data_description = JSString [],
              data_priority = JSString ''low''\<rparr>;
        s = run (snd (new_TaskService 0 0 0)) (replicate 9007199254740989 (Create d 0))
    in nextId s = 9007199254740992
       \<and> ''9007199254740992'' \<in> fst ` set (taskStore s)
       \<and> (case createTask s d None None None 0 of
            (Inl e, s') \<Rightarrow> False
          | (Inr task, s') \<Rightarrow>
              task_id task = ''9007199254740992''
              \<and> task_id task \<in> fst ` set (taskStore s)
              \<and> nextId s' = nextId s))"
proof -
  define d where "d = \<lparr>data_title = JSString ''x'', data_description = JSString [],
              data_priority = JSString ''low''\<rparr>"
  define s where "s = run (snd (new_TaskService 0 0 0)) (replicate 9007199254740989 (Create d 0))"
  have valid: "\<not> create_title_invalid (data_title d)"
    "Array_includes TASK_PRIORITIES (data_priority d)"
    "\<not> not_string (data_description d)"
    by (simp_all add: d_def TASK_PRIORITIES_def trim_def isWhiteSpace_def)
  have k: "nextId (snd (new_TaskService 0 0 0)) + 9007199254740988 = MAX_SAFE_INTEGER + 1"
    by (simp add: seeded MAX_SAFE_INTEGER_def)
  have "(9007199254740989 :: nat) = Suc 9007199254740988" by simp
  then have s: "s = run (snd (new_TaskService 0 0 0))
                     (replicate (Suc 9007199254740988) (Create d 0))"
    by (simp only: s_def)
  have top: "MAX_SAFE_INTEGER + 1 = 9007199254740992" by (simp add: MAX_SAFE_INTEGER_def)
  have digit_values:
    "digit 0 = CHR ''0''" "digit (Suc 0) = CHR ''1''" "digit 2 = CHR ''2''" "digit 4 = CHR ''4''" "digit 5 = CHR ''5''"
    "digit 7 = CHR ''7''" "digit 9 = CHR ''9''"
    by code_simp+
  have digits: "toString 9007199254740992 = ''9007199254740992''"
    by (simp add: toString.simps digit_values)
  note stuck = counter_stuck [OF valid k s, unfolded top digits]
  from stuck(3) [of 0] obtain task s' where c: "createTask s d None None None 0 = (Inr task, s')"
    and t: "task_id task = ''9007199254740992''" and n: "nextId s' = 9007199254740992"
    by blast
  have "nextId s = 9007199254740992
       \<and> ''9007199254740992'' \<in> fst ` set (taskStore s)
       \<and> (case createTask s d None None None 0 of
            (Inl e, s') \<Rightarrow> False
          | (Inr task, s') \<Rightarrow>
              task_id task = ''9007199254740992''
              \<and> task_id task \<in> fst ` set (taskStore s)
              \<and> nextId s' = nextId s)"
    using stuck(1,2) t n unfolding c by simp
  then show ?thesis
    unfolding Let_def d_def [symmetric] s_def [symmetric] .
qed

text \<open>
  Claim C7. After seeding and any sequence of create, update, toggle and delete calls, the
  title of every stored task is non-empty, not all white space, and trimmed. A create whose
  title is not a string or is empty after trimming throws the validation error and changes
  nothing; so does an update of a stored task whose data has such a title.
\<close>

theorem stored_titles_nonblank:
  "(let s = run (snd (new_TaskService t1 t2 t3)) ops
    in (\<forall>task \<in> set (Map_values (taskStore s)).
          title task \<noteq> [] \<and> \<not> list_all isWhiteSpace (title task)
          \<and> trim (title task) = title task)
       \<and> (\<forall>d idopt c ca now.
            (case data_title d of JSString t \<Rightarrow> trim t = [] | _ \<Rightarrow> True) \<longrightarrow>
            createTask s d idopt c ca now
              = (Inl (Error ''Invalid task data: Title is required and cannot be empty.''), s))
       \<and> (\<forall>i d.
            Map_get (taskStore s) i \<noteq> None \<and> data_title d \<noteq> JSUndefined
            \<and> (case data_title d of JSString t \<Rightarrow> trim t = [] | _ \<Rightarrow> True) \<longrightarrow>
            updateTask s i d = (Inl (Error ''Invalid task data: Title cannot be empty.''), s)))"
proof -
  let ?s = "run (snd (new_TaskService t1 t2 t3)) ops"
  have "titles_ok ?s" by (simp add: titles_ok_seeded titles_ok_run)
  then have stored: "\<forall>task \<in> set (Map_values (taskStore ?s)).
          title task \<noteq> [] \<and> \<not> list_all isWhiteSpace (title task)
          \<and> trim (title task) = title task"
    by (simp add: titles_ok_def title_ok_def)
  have create: "createTask ?s d idopt c ca now
              = (Inl (Error ''Invalid task data: Title is required and cannot be empty.''), ?s)"
    if "case data_title d of JSString t \<Rightarrow> trim t = [] | _ \<Rightarrow> True" for d idopt c ca now
  proof -
    from that have "create_title_invalid (data_title d)" by (cases "data_title d") simp_all
    then show ?thesis by (simp add: createTask_def)
  qed
  have update: "updateTask ?s i d
       = (Inl (Error ''Invalid task data: Title cannot be empty.''), ?s)"
    if "Map_get (taskStore ?s) i \<noteq> None \<and> data_title d \<noteq> JSUndefined
            \<and> (case data_title d of JSString t \<Rightarrow> trim t = [] | _ \<Rightarrow> True)" for i d
  proof -
    from that have "update_title_invalid (data_title d)" by (cases "data_title d") simp_all
    with that show ?thesis by (auto simp: updateTask_def)
  qed
  show ?thesis unfolding Let_def using stored create update by blast
qed

theorem stored_titles_nonblank_witness:
  "(let blank = \<lparr>data_title = JSString ''   '', data_description = JSUndefined,
                 data_priority = JSUndefined\<rparr>;
        s = run (snd (new_TaskService 1000 2000 3000))
              [Create \<lparr>data_title = JSString ''  Buy milk '', data_description = JSString [],
                       data_priority = JSString ''low''\<rparr> 5000,
               Update ''1'' blank,
               Update ''3'' \<lparr>data_title = JSString '' x '', data_description = JSUndefined,
                             data_priority = JSUndefined\<rparr>]
    in map title (Map_values (taskStore s))
         = [''Complete the project setup'', ''Research Web Components'', ''x'', ''Buy milk'']
       \<and> trim ''   '' = []
       \<and> Map_get (taskStore s) ''1'' \<noteq> None
       \<and> updateTask s ''1'' blank
           = (Inl (Error ''Invalid task data: Title cannot be empty.''), s))"
proof -
  define blank where "blank = \<lparr>data_title = JSString ''   '', data_description = JSUndefined,
                 data_priority = JSUndefined\<rparr>"
  define s where "s = run (snd (new_TaskService 1000 2000 3000))
              [Create \<lparr>data_title = JSString ''  Buy milk '', data_description = JSString [],
                       data_priority = JSString ''low''\<rparr> 5000,
               Update ''1'' blank,
               Update ''3'' \<lparr>data_title = JSString '' x '', data_description = JSUndefined,
                             data_priority = JSUndefined\<rparr>]"
  have digits: "toString 4 = ''4''" by code_simp
  have blank: "trim ''   '' = []" by (simp add: trim_def isWhiteSpace_def)
  have s: "map title (Map_values (taskStore s))
         = [''Complete the project setup'', ''Research Web Components'', ''x'', ''Buy milk'']"
    "Map_get (taskStore s) ''1'' \<noteq> None"
    by (simp_all add: s_def blank_def seeded digits createTask_def updateTask_def Map_get_def
        Map_set_def Map_values_def TASK_PRIORITIES_def trim_def isWhiteSpace_def Let_def)
  have "updateTask s ''1'' blank
           = (Inl (Error ''Invalid task data: Title cannot be empty.''), s)"
    using stored_titles_nonblank [of 1000 2000 3000
        "[Create \<lparr>data_title = JSString ''  Buy milk '', data_description = JSString [],
                       data_priority = JSString ''low''\<rparr> 5000,
               Update ''1'' blank,
               Update ''3'' \<lparr>data_title = JSString '' x '', data_description = JSUndefined,
                             data_priority = JSUndefined\<rparr>]"] s(2) blank
    unfolding Let_def s_def [symmetric] by (simp add: blank_def)
  then show ?thesis
    unfolding Let_def blank_def [symmetric] s_def [symmetric] using s blank by simp
qed

section \<open>Listing\<close>

lemma insert_by_newest_first:
  "insert_by newest_first x ys = insort_key (\<lambda>t. - createdAt t) x ys"
  by (induction ys) (simp_all add: newest_first_def)

lemma sort_by_newest_first: "sort_by newest_first xs = sort_key (\<lambda>t. - createdAt t) xs"
proof -
  have "insert_by newest_first = insort_key (\<lambda>t. - createdAt t)"
    by (intro ext) (rule insert_by_newest_first)
  then show ?thesis by (simp add: sort_by_def sort_key_def)
qed

lemma mset_getAllTasks:
  "mset (getAllTasks s status) = filter_mset (status_filter status) (mset (Map_values (taskStore s)))"
  by (simp add: getAllTasks_def sort_by_newest_first)

lemma status_filter_simps:
  "status_filter None = (\<lambda>t. True)"
  "status_filter (Some ''active'') = (\<lambda>t. \<not> completed t)"
  "status_filter (Some ''completed'') = completed"
  by (simp_all add: status_filter_def fun_eq_iff)

text \<open>
  Claim C5. When the stored tasks have pairwise distinct \<open>createdAt\<close> values, \<open>getAllTasks\<close>
  with no status returns exactly the stored tasks, in strictly descending order of
  \<open>createdAt\<close>: each task is newer than every task after it.
\<close>

theorem getAllTasks_newest_first:
  "distinct (map createdAt (Map_values (taskStore s))) \<Longrightarrow>
     mset (getAllTasks s None) = mset (Map_values (taskStore s))
     \<and> sorted_wrt (\<lambda>a b. createdAt b < createdAt a) (getAllTasks s None)"
proof -
  assume d: "distinct (map createdAt (Map_values (taskStore s)))"
  let ?f = "\<lambda>t. - createdAt t"
  let ?r = "getAllTasks s None"
  have m: "mset ?r = mset (Map_values (taskStore s))"
    by (simp add: mset_getAllTasks status_filter_simps)
  then have "mset (map createdAt ?r) = mset (map createdAt (Map_values (taskStore s)))"
    by simp
  from mset_eq_imp_distinct_iff [OF this] d have "distinct (map createdAt ?r)" by simp
  then have "distinct (map ?f ?r)"
    by (simp add: distinct_map inj_on_def)
  moreover have "sorted (map ?f ?r)"
    by (simp add: getAllTasks_def sort_by_newest_first)
  ultimately have "sorted_wrt (<) (map ?f ?r)" by (simp add: strict_sorted_iff)
  then have "sorted_wrt (\<lambda>a b. createdAt b < createdAt a) ?r"
    by (simp add: sorted_wrt_map)
  with m show ?thesis by simp
qed

theorem getAllTasks_newest_first_witness:
  "(let s = snd (new_TaskService 1000 2000 3000)
    in distinct (map createdAt (Map_values (taskStore s)))
       \<and> map task_id (getAllTasks s None) = [''3'', ''1'', ''2'']
       \<and> map createdAt (getAllTasks s None) = [3000, 1000, - 86398000]
       \<and> sorted_wrt (\<lambda>a b. createdAt b < createdAt a) (getAllTasks s None))"
proof -
  define s where "s = snd (new_TaskService 1000 2000 3000)"
  have d: "distinct (map createdAt (Map_values (taskStore s)))"
    by (simp add: s_def seeded Map_values_def)
  have e: "map task_id (getAllTasks s None) = [''3'', ''1'', ''2'']"
    "map createdAt (getAllTasks s None) = [3000, 1000, - 86398000]"
    by (simp_all add: s_def seeded Map_values_def getAllTasks_def sort_by_def newest_first_def
        status_filter_def)
  from getAllTasks_newest_first [OF d] d e show ?thesis
    unfolding Let_def s_def [symmetric] by simp
qed

text \<open>
  Claim C6. In every state of the store, the list of completed tasks and the list of active
  tasks have no task in common, and together they hold exactly the tasks of the unfiltered
  list: the multisets of tasks, and so of ids, add up. When the stored tasks have pairwise
  distinct ids, the two lists have no id in common either.
\<close>

theorem getAllTasks_partition:
  "(let done = getAllTasks s (Some ''completed'');
        active = getAllTasks s (Some ''active'');
        every = getAllTasks s None
    in set done \<inter> set active = {}
       \<and> mset done + mset active = mset every
       \<and> mset (map task_id done) + mset (map task_id active) = mset (map task_id every)
       \<and> (distinct (map task_id (Map_values (taskStore s))) \<longrightarrow>
            set (map task_id done) \<inter> set (map task_id active) = {}))"
proof -
  let ?v = "Map_values (taskStore s)"
  let ?c = "getAllTasks s (Some ''completed'')"
  let ?a = "getAllTasks s (Some ''active'')"
  let ?e = "getAllTasks s None"
  have c: "mset ?c = filter_mset completed (mset ?v)"
    and a: "mset ?a = filter_mset (\<lambda>t. \<not> completed t) (mset ?v)"
    and e: "mset ?e = mset ?v"
    by (simp_all add: mset_getAllTasks status_filter_simps)
  have sum: "mset ?c + mset ?a = mset ?e" by (simp add: c a e)
  have "set ?c = {t \<in> set ?v. completed t}" "set ?a = {t \<in> set ?v. \<not> completed t}"
    using arg_cong [OF c, of set_mset] arg_cong [OF a, of set_mset] by simp_all
  then have disj: "set ?c \<inter> set ?a = {}" by auto
  have ids: "mset (map task_id ?c) + mset (map task_id ?a) = mset (map task_id ?e)"
    using arg_cong [OF sum, of "image_mset task_id"] by simp
  have "set (map task_id ?c) \<inter> set (map task_id ?a) = {}"
    if "distinct (map task_id ?v)"
  proof -
    have "mset (map task_id (?c @ ?a)) = mset (map task_id ?v)" using ids e by simp
    from mset_eq_imp_distinct_iff [OF this] that have "distinct (map task_id (?c @ ?a))"
      by simp
    then show ?thesis by simp
  qed
  with disj sum ids show ?thesis unfolding Let_def by blast
qed

theorem getAllTasks_partition_witness:
  "(let s = snd (new_TaskService 1000 2000 3000)
    in distinct (map task_id (Map_values (taskStore s)))
       \<and> map task_id (getAllTasks s (Some ''completed'')) = [''2'']
       \<and> map task_id (getAllTasks s (Some ''active'')) = [''3'', ''1'']
       \<and> map task_id (getAllTasks s None) = [''3'', ''1'', ''2'']
       \<and> set (map task_id (getAllTasks s (Some ''completed'')))
            \<inter> set (map task_id (getAllTasks s (Some ''active''))) = {})"
proof -
  define s where "s = snd (new_TaskService 1000 2000 3000)"
  have d: "distinct (map task_id (Map_values (taskStore s)))"
    by (simp add: s_def seeded Map_values_def)
  have e: "map task_id (getAllTasks s (Some ''completed'')) = [''2'']"
    "map task_id (getAllTasks s (Some ''active'')) = [''3'', ''1'']"
    "map task_id (getAllTasks s None) = [''3'', ''1'', ''2'']"
    by (simp_all add: s_def seeded Map_values_def getAllTasks_def sort_by_def newest_first_def
        status_filter_def)
  from getAllTasks_partition [of s] d
  have "set (map task_id (getAllTasks s (Some ''completed'')))
            \<inter> set (map task_id (getAllTasks s (Some ''active''))) = {}"
    unfolding Let_def by blast
  with d e show ?thesis unfolding Let_def s_def [symmetric] by simp
qed

section \<open>Escaping in the task fragment\<close>

lemma lt_guarded_append: "lt_guarded xs \<Longrightarrow> lt_guarded ys \<Longrightarrow> lt_guarded (xs @ ys)"
  by (induction xs) (auto split: list.splits)

lemma lt_guarded_no_lt: "CHR ''<'' \<notin> set xs \<Longrightarrow> lt_guarded xs"
  by (induction xs) auto

lemma lt_guarded_drop: "lt_guarded (ps @ xs) \<Longrightarrow> lt_guarded xs"
  by (induction ps) auto

lemma lt_guarded_no_script: assumes "lt_guarded s" shows "\<not> sublist ''<script>'' s"
proof
  assume "sublist ''<script>'' s"
  then obtain ps ss where "s = ps @ ''<script>'' @ ss" by (auto simp: sublist_def)
  with assms have "lt_guarded (''<script>'' @ ss)" by (auto dest: lt_guarded_drop)
  then show False by simp
qed

lemma htmlEscape_chars:
  "CHR ''<'' \<notin> set (htmlEscape s)" "CHR ''>'' \<notin> set (htmlEscape s)"
  "CHR 0x22 \<notin> set (htmlEscape s)" "CHR 0x27 \<notin> set (htmlEscape s)"
  by (auto simp: htmlEscape_def htmlEscape_char_def split: if_splits)

lemma count_htmlEscape:
  "count_list (htmlEscape s) CHR ''<'' = 0" "count_list (htmlEscape s) CHR ''>'' = 0"
  "count_list (htmlEscape s) CHR 0x22 = 0" "count_list (htmlEscape s) CHR 0x27 = 0"
  by (simp_all add: htmlEscape_chars)

lemma lt_guarded_htmlEscape: "lt_guarded (htmlEscape s)"
  by (simp add: lt_guarded_no_lt htmlEscape_chars)

lemma lt_guarded_taskToHtml: "lt_guarded (taskToHtml task)"
  unfolding taskToHtml_def Let_def
  by (intro lt_guarded_append lt_guarded_htmlEscape) simp_all

lemma sublist_skip: "sublist xs zs \<Longrightarrow> sublist xs (ys @ zs)"
  by (metis sublist_appendI sublist_order.order.trans sublist_append_leftI)

lemma title_in_taskToHtml: "sublist (htmlEscape (title task)) (taskToHtml task)"
  unfolding taskToHtml_def Let_def
  by (rule sublist_append_rightI | rule sublist_skip)+

lemma description_in_taskToHtml: "sublist (htmlEscape (description task)) (taskToHtml task)"
  unfolding taskToHtml_def Let_def
  by (rule sublist_append_rightI | rule sublist_skip)+

lemma count_taskToHtml:
  assumes "\<And>s. count_list (htmlEscape s) c = 0"
  shows "count_list (taskToHtml task) c
           = count_list (taskToHtml (task\<lparr>title := [], description := []\<rparr>)) c"
proof -
  define blank where "blank = task\<lparr>title := [], description := []\<rparr>"
  have same: "task_id blank = task_id task" "completed blank = completed task"
    "priority blank = priority task"
    by (simp_all add: blank_def)
  have "count_list (taskToHtml task) c = count_list (taskToHtml blank) c"
    unfolding taskToHtml_def Let_def by (simp only: count_list_append same assms)
  then show ?thesis by (simp only: blank_def)
qed

text \<open>
  Claim C1. The fragment \<open>taskToHtml\<close> renders for a task escapes the title and the
  description: it has exactly as many angle brackets, double quotes and single quotes as
  the fragment of the same task with an empty title and description, so the two strings
  contribute none; both occur in the fragment in their escaped form; and no fragment
  contains the text \<open><script>\<close>. In particular the title \<open><script>alert(1)</script>\<close> occurs
  only with its angle brackets as character references.
\<close>

theorem taskToHtml_escapes:
  \<open>count_list (taskToHtml task) CHR ''<''
       = count_list (taskToHtml (task\<lparr>title := [], description := []\<rparr>)) CHR ''<''
   \<and> count_list (taskToHtml task) CHR ''>''
       = count_list (taskToHtml (task\<lparr>title := [], description := []\<rparr>)) CHR ''>''
   \<and> count_list (taskToHtml task) CHR 0x22
       = count_list (taskToHtml (task\<lparr>title := [], description := []\<rparr>)) CHR 0x22
   \<and> count_list (taskToHtml task) CHR 0x27
       = count_list (taskToHtml (task\<lparr>title := [], description := []\<rparr>)) CHR 0x27
   \<and> sublist (htmlEscape (title task)) (taskToHtml task)
   \<and> sublist (htmlEscape (description task)) (taskToHtml task)
   \<and> \<not> sublist ''<script>'' (taskToHtml task)
   \<and> (title task = ''<script>alert(1)</script>'' \<longrightarrow>
        sublist ''&lt;script&gt;alert(1)&lt;/script&gt;'' (taskToHtml task))\<close>
proof -
  have \<open>htmlEscape ''<script>alert(1)</script>'' = ''&lt;script&gt;alert(1)&lt;/script&gt;''\<close>
    by (simp add: htmlEscape_def htmlEscape_char_def)
  then have \<open>sublist ''&lt;script&gt;alert(1)&lt;/script&gt;'' (taskToHtml task)\<close>
    if \<open>title task = ''<script>alert(1)</script>''\<close>
    using title_in_taskToHtml [of task] that by simp
  then show ?thesis
    using count_taskToHtml [OF count_htmlEscape(1)] count_taskToHtml [OF count_htmlEscape(2)]
      count_taskToHtml [OF count_htmlEscape(3)] count_taskToHtml [OF count_htmlEscape(4)]
      title_in_taskToHtml description_in_taskToHtml
      lt_guarded_no_script [OF lt_guarded_taskToHtml]
    by blast
qed

theorem taskToHtml_escapes_witness:
  \<open>(let task = \<lparr>task_id = ''4'', title = ''<script>alert(1)</script>'',
                 description = ''a "quoted" & <b>bold</b> note'', priority = ''low'',
                 completed = False, createdAt = 5000\<rparr>
     in title task = ''<script>alert(1)</script>''
        \<and> htmlEscape (title task) = ''&lt;script&gt;alert(1)&lt;/script&gt;''
        \<and> htmlEscape (description task)
             = ''a &quot;quoted&quot; &amp; &lt;b&gt;bold&lt;/b&gt; note''
        \<and> sublist ''&lt;script&gt;alert(1)&lt;/script&gt;'' (taskToHtml task)
        \<and> \<not> sublist ''<script>'' (taskToHtml task))\<close>
  using taskToHtml_escapes [of \<open>\<lparr>task_id = ''4'', title = ''<script>alert(1)</script>'',
                 description = ''a "quoted" & <b>bold</b> note'', priority = ''low'',
                 completed = False, createdAt = 5000\<rparr>\<close>]
  by (simp add: htmlEscape_def htmlEscape_char_def)

section \<open>Routing\<close>

lemma split_no_sep: "sep \<notin> set xs \<Longrightarrow> split sep xs = [xs]"
  by (induction xs) auto

lemma split_append_sep:
  "sep \<notin> set xs \<Longrightarrow> split sep (xs @ sep # ys) = xs # split sep ys"
  by (induction xs) auto

lemma slash_not_word: "\<not> isWordChar CHR ''/''"
  by (simp add: isWordChar_def)

lemma word_no_slash: "list_all isWordChar seg \<Longrightarrow> CHR ''/'' \<notin> set seg"
  using slash_not_word by (auto simp: list_all_iff)

lemma takeWhile_all: "list_all P xs \<Longrightarrow> takeWhile P xs = xs"
  by (simp add: list_all_iff)

lemma dropWhile_all: "list_all P xs \<Longrightarrow> dropWhile P xs = []"
  by (simp add: list_all_iff)

lemma takeWhile_stop: "list_all P xs \<Longrightarrow> \<not> P y \<Longrightarrow> takeWhile P (xs @ y # ys) = xs"
  by (simp add: list_all_iff takeWhile_append2)

lemma dropWhile_stop: "list_all P xs \<Longrightarrow> \<not> P y \<Longrightarrow> dropWhile P (xs @ y # ys) = y # ys"
  by (simp add: list_all_iff dropWhile_append2)

lemma params_id_plain:
  assumes "CHR ''/'' \<notin> set seg"
  shows "params_id (getPathParams ''/api/tasks/:id'' (''/api/tasks/'' @ seg)) = Some seg"
  using assms by (simp add: getPathParams_def params_id_def split_no_sep)

lemma params_id_edit:
  assumes "CHR ''/'' \<notin> set seg"
  shows "params_id (getPathParams ''/api/tasks/:id/edit'' (''/api/tasks/'' @ seg @ ''/edit''))
           = Some seg"
  using assms by (simp add: getPathParams_def params_id_def split_append_sep)

lemma params_id_toggle:
  assumes "CHR ''/'' \<notin> set seg"
  shows "params_id (getPathParams ''/api/tasks/:id/toggle'' (''/api/tasks/'' @ seg @ ''/toggle''))
           = Some seg"
  using assms by (simp add: getPathParams_def params_id_def split_append_sep)

lemma dropWhile_rest:
  assumes "\<not> list_all P xs"
  shows "dropWhile P xs \<noteq> []" "hd (dropWhile P xs) \<in> set xs" "\<not> P (hd (dropWhile P xs))"
    "dropWhile P (xs @ ys) = dropWhile P xs @ ys"
proof -
  from assms obtain x where x: "x \<in> set xs" "\<not> P x" by (auto simp: list_all_iff)
  then show ne: "dropWhile P xs \<noteq> []" by auto
  then have "hd (dropWhile P xs) \<in> set (dropWhile P xs)" by simp
  then show "hd (dropWhile P xs) \<in> set xs" by (rule set_dropWhileD)
  show "\<not> P (hd (dropWhile P xs))" using ne by (rule hd_dropWhile)
  show "dropWhile P (xs @ ys) = dropWhile P xs @ ys" using x by (rule dropWhile_append1)
qed

lemma not_matched:
  assumes that: "lit = [] \<or> lit = ''/edit'' \<or> lit = ''/toggle''"
    and nw: "\<not> list_all isWordChar seg" and ns: "CHR ''/'' \<notin> set seg"
  shows "\<not> matches_task_path lit (''/api/tasks/'' @ seg)"
    "\<not> matches_task_path lit (''/api/tasks/'' @ seg @ ''/edit'')"
    "\<not> matches_task_path lit (''/api/tasks/'' @ seg @ ''/toggle'')"
proof -
  let ?d = "dropWhile isWordChar seg"
  note d = dropWhile_rest [OF nw]
  from d(1) obtain c cs where c: "?d = c # cs" by (cases ?d) auto
  with d(2) ns have "c \<noteq> CHR ''/''" by auto
  with c that have "?d \<noteq> lit" "?d @ ''/edit'' \<noteq> lit" "?d @ ''/toggle'' \<noteq> lit"
    by auto
  then show "\<not> matches_task_path lit (''/api/tasks/'' @ seg)"
    "\<not> matches_task_path lit (''/api/tasks/'' @ seg @ ''/edit'')"
    "\<not> matches_task_path lit (''/api/tasks/'' @ seg @ ''/toggle'')"
    using d(4) [of "''/edit''"] d(4) [of "''/toggle''"]
    by (simp_all add: matches_task_path_def)
qed

lemma deleteTaskHandler_cases:
  "deleteTaskHandler s i =
     (if Option.bind i (getTaskById s) = None
      then (jsonErrorResponse ''Task not found or could not be deleted.'' 404, s)
      else (\<lparr>resp_status = 204, resp_headers = DEFAULT_CORS_HEADERS, resp_body = None\<rparr>,
            snd (deleteTask s (the i))))"
  by (cases i)
    (auto simp: deleteTaskHandler_def deleteTask_def Map_delete_def getTaskById_def Map_get_def
      map_of_eq_None_iff)

text \<open>The two not-found responses of the task handlers, written out.\<close>

lemma task_not_found_response:
  \<open>htmlErrorResponse ''Task not found.'' 404 ''danger'' =
     \<lparr>resp_status = 404,
      resp_headers =
        [(''Access-Control-Allow-Origin'', ''*''),
         (''Access-Control-Allow-Methods'', ''GET, POST, PUT, DELETE, OPTIONS''),
         (''Access-Control-Allow-Headers'', ''Content-Type''),
         (''Content-Type'', ''text/html'')],
      resp_body = Some
        (''\<newline>'' @
         ''    <sl-alert variant="danger" open closable>\<newline>'' @
         ''      <sl-icon slot="icon" name="exclamation-octagon"></sl-icon>\<newline>'' @
         ''      Task not found.\<newline>'' @
         ''    </sl-alert>\<newline>'' @
         ''  '')\<rparr>\<close>
  by (simp add: htmlErrorResponse_def headers_with_def DEFAULT_CORS_HEADERS_def htmlEscape_def
      htmlEscape_char_def)

lemma task_not_deleted_response:
  \<open>jsonErrorResponse ''Task not found or could not be deleted.'' 404 =
     \<lparr>resp_status = 404,
      resp_headers =
        [(''Access-Control-Allow-Origin'', ''*''),
         (''Access-Control-Allow-Methods'', ''GET, POST, PUT, DELETE, OPTIONS''),
         (''Access-Control-Allow-Headers'', ''Content-Type''),
         (''Content-Type'', ''application/json'')],
      resp_body = Some ''{"error":"Task not found or could not be deleted."}''\<rparr>\<close>
  by (simp add: jsonErrorResponse_def headers_with_def DEFAULT_CORS_HEADERS_def
      JSON_stringify_string_def JSON_quote_char_def)

lemma unknown_id_handlers:
  assumes "Map_get (taskStore s) i = None"
  shows "getTaskByIdHandler s (Some i) = htmlErrorResponse ''Task not found.'' 404 ''danger''"
    and "getTaskEditFormHandler s (Some i)
           = htmlErrorResponse ''Task not found.'' 404 ''danger''"
    and "toggleTaskHandler s (Some i)
           = (htmlErrorResponse ''Task not found.'' 404 ''danger'', s)"
    and "deleteTaskHandler s (Some i)
           = (jsonErrorResponse ''Task not found or could not be deleted.'' 404, s)"
    and "parseFormData req = Inr fd \<Longrightarrow>
         updateTaskHandler s req (Some i)
           = (htmlErrorResponse ''Task not found.'' 404 ''danger'', s)"
  using assms
  by (simp_all add: getTaskByIdHandler_def getTaskEditFormHandler_def getTaskById_def
      toggleTaskHandler_def toggleTaskCompletion_def deleteTaskHandler_cases
      updateTaskHandler_def updateTask_def Let_def)

lemma unparsed_update:
  "parseFormData req = Inl e \<Longrightarrow>
   updateTaskHandler s req i
     = (catch_response ''Failed to update task due to an unexpected error.'' e, s)"
  by (simp add: updateTaskHandler_def)

text \<open>
  Claim C2, as the code has it. The identifier segment of \<open>/api/tasks/{id}\<close>,
  \<open>/api/tasks/{id}/edit\<close> and \<open>/api/tasks/{id}/toggle\<close> matches any non-empty token of word
  characters (ASCII letters, digits and the underscore), not only digits: such a request
  with method GET, PUT or DELETE (GET for \<open>/edit\<close>, PUT for \<open>/toggle\<close>) is dispatched to the
  corresponding task handler with that token as the id. For an id that is not in the store
  the response is then the task-level not-found one: the alert \<open>Task not found.\<close> with
  status 404 for GET, edit and toggle, the JSON envelope with status 404 for DELETE, and
  for PUT the same alert once the submitted form has parsed; a body that does not parse is
  answered first, by the \<open>catch\<close> block of the handler. A token without a slash that has
  any other character is matched by no route: whatever the method, the response is the
  route-not-found one.
\<close>

theorem word_id_routed:
  \<open>(let notFound =
          \<lparr>resp_status = 404,
           resp_headers =
             [(''Access-Control-Allow-Origin'', ''*''),
              (''Access-Control-Allow-Methods'', ''GET, POST, PUT, DELETE, OPTIONS''),
              (''Access-Control-Allow-Headers'', ''Content-Type''),
              (''Content-Type'', ''text/html'')],
           resp_body = Some
             (''\<newline>'' @
              ''    <sl-alert variant="danger" open closable>\<newline>'' @
              ''      <sl-icon slot="icon" name="exclamation-octagon"></sl-icon>\<newline>'' @
              ''      Task not found.\<newline>'' @
              ''    </sl-alert>\<newline>'' @
              ''  '')\<rparr>;
        notDeleted =
          \<lparr>resp_status = 404,
           resp_headers =
             [(''Access-Control-Allow-Origin'', ''*''),
              (''Access-Control-Allow-Methods'', ''GET, POST, PUT, DELETE, OPTIONS''),
              (''Access-Control-Allow-Headers'', ''Content-Type''),
              (''Content-Type'', ''application/json'')],
           resp_body = Some ''{"error":"Task not found or could not be deleted."}''\<rparr>
    in (seg \<noteq> [] \<and> list_all isWordChar seg \<longrightarrow>
          handleApiRequest s req (''/api/tasks/'' @ seg) ''GET'' now
            = (getTaskByIdHandler s (Some seg), s)
          \<and> handleApiRequest s req (''/api/tasks/'' @ seg) ''PUT'' now
            = updateTaskHandler s req (Some seg)
          \<and> handleApiRequest s req (''/api/tasks/'' @ seg) ''DELETE'' now
            = deleteTaskHandler s (Some seg)
          \<and> handleApiRequest s req (''/api/tasks/'' @ seg @ ''/edit'') ''GET'' now
            = (getTaskEditFormHandler s (Some seg), s)
          \<and> handleApiRequest s req (''/api/tasks/'' @ seg @ ''/toggle'') ''PUT'' now
            = toggleTaskHandler s (Some seg)
          \<and> (Map_get (taskStore s) seg = None \<longrightarrow>
                handleApiRequest s req (''/api/tasks/'' @ seg) ''GET'' now = (notFound, s)
                \<and> handleApiRequest s req (''/api/tasks/'' @ seg) ''DELETE'' now
                    = (notDeleted, s)
                \<and> handleApiRequest s req (''/api/tasks/'' @ seg @ ''/edit'') ''GET'' now
                    = (notFound, s)
                \<and> handleApiRequest s req (''/api/tasks/'' @ seg @ ''/toggle'') ''PUT'' now
                    = (notFound, s)
                \<and> (\<forall>fd. parseFormData req = Inr fd \<longrightarrow>
                      handleApiRequest s req (''/api/tasks/'' @ seg) ''PUT'' now
                        = (notFound, s)))
          \<and> (\<forall>e. parseFormData req = Inl e \<longrightarrow>
                handleApiRequest s req (''/api/tasks/'' @ seg) ''PUT'' now
                  = (catch_response ''Failed to update task due to an unexpected error.'' e,
                     s)))
       \<and> (\<not> list_all isWordChar seg \<and> CHR ''/'' \<notin> set seg \<longrightarrow>
          (\<forall>m.
             handleApiRequest s req (''/api/tasks/'' @ seg) m now
               = (jsonErrorResponse ''API Endpoint Not Found'' 404, s)
             \<and> handleApiRequest s req (''/api/tasks/'' @ seg @ ''/edit'') m now
               = (jsonErrorResponse ''API Endpoint Not Found'' 404, s)
             \<and> handleApiRequest s req (''/api/tasks/'' @ seg @ ''/toggle'') m now
               = (jsonErrorResponse ''API Endpoint Not Found'' 404, s))))\<close>
proof -
  have routed:
    "handleApiRequest s req (''/api/tasks/'' @ seg) ''GET'' now
       = (getTaskByIdHandler s (Some seg), s)"
    "handleApiRequest s req (''/api/tasks/'' @ seg) ''PUT'' now
       = updateTaskHandler s req (Some seg)"
    "handleApiRequest s req (''/api/tasks/'' @ seg) ''DELETE'' now
       = deleteTaskHandler s (Some seg)"
    "handleApiRequest s req (''/api/tasks/'' @ seg @ ''/edit'') ''GET'' now
       = (getTaskEditFormHandler s (Some seg), s)"
    "handleApiRequest s req (''/api/tasks/'' @ seg @ ''/toggle'') ''PUT'' now
       = toggleTaskHandler s (Some seg)"
    if "seg \<noteq> [] \<and> list_all isWordChar seg"
  proof -
    from that have ne: "seg \<noteq> []" and w: "list_all isWordChar seg" by simp_all
    have ns: "CHR ''/'' \<notin> set seg" using w by (rule word_no_slash)
    have plain: "matches_task_path [] (''/api/tasks/'' @ seg)"
      using ne w by (simp add: matches_task_path_def takeWhile_all dropWhile_all)
    have edit: "matches_task_path ''/edit'' (''/api/tasks/'' @ seg @ ''/edit'')"
      "\<not> matches_task_path [] (''/api/tasks/'' @ seg @ ''/edit'')"
      using ne w slash_not_word
      by (simp_all add: matches_task_path_def takeWhile_stop dropWhile_stop)
    have toggle: "matches_task_path ''/toggle'' (''/api/tasks/'' @ seg @ ''/toggle'')"
      "\<not> matches_task_path [] (''/api/tasks/'' @ seg @ ''/toggle'')"
      "\<not> matches_task_path ''/edit'' (''/api/tasks/'' @ seg @ ''/toggle'')"
      using ne w slash_not_word
      by (simp_all add: matches_task_path_def takeWhile_stop dropWhile_stop)
    note facts = plain edit toggle params_id_plain [OF ns] params_id_edit [OF ns]
        params_id_toggle [OF ns]
    show "handleApiRequest s req (''/api/tasks/'' @ seg) ''GET'' now
          = (getTaskByIdHandler s (Some seg), s)"
      unfolding handleApiRequest_def using facts by simp
    show "handleApiRequest s req (''/api/tasks/'' @ seg) ''PUT'' now
          = updateTaskHandler s req (Some seg)"
      unfolding handleApiRequest_def using facts by simp
    show "handleApiRequest s req (''/api/tasks/'' @ seg) ''DELETE'' now
          = deleteTaskHandler s (Some seg)"
      unfolding handleApiRequest_def using facts by simp
    show "handleApiRequest s req (''/api/tasks/'' @ seg @ ''/edit'') ''GET'' now
          = (getTaskEditFormHandler s (Some seg), s)"
      unfolding handleApiRequest_def using facts by simp
    show "handleApiRequest s req (''/api/tasks/'' @ seg @ ''/toggle'') ''PUT'' now
          = toggleTaskHandler s (Some seg)"
      unfolding handleApiRequest_def using facts by simp
  qed
  have unmatched:
    "handleApiRequest s req (''/api/tasks/'' @ seg) m now
       = (jsonErrorResponse ''API Endpoint Not Found'' 404, s)"
    "handleApiRequest s req (''/api/tasks/'' @ seg @ ''/edit'') m now
       = (jsonErrorResponse ''API Endpoint Not Found'' 404, s)"
    "handleApiRequest s req (''/api/tasks/'' @ seg @ ''/toggle'') m now
       = (jsonErrorResponse ''API Endpoint Not Found'' 404, s)"
    if "\<not> list_all isWordChar seg \<and> CHR ''/'' \<notin> set seg" for m
  proof -
    from that have nw: "\<not> list_all isWordChar seg" and ns: "CHR ''/'' \<notin> set seg"
      by simp_all
    note n = not_matched [OF _ nw ns]
    have m: "\<not> matches_task_path [] (''/api/tasks/'' @ seg)"
      "\<not> matches_task_path ''/edit'' (''/api/tasks/'' @ seg)"
      "\<not> matches_task_path ''/toggle'' (''/api/tasks/'' @ seg)"
      "\<not> matches_task_path [] (''/api/tasks/'' @ seg @ ''/edit'')"
      "\<not> matches_task_path ''/edit'' (''/api/tasks/'' @ seg @ ''/edit'')"
      "\<not> matches_task_path ''/toggle'' (''/api/tasks/'' @ seg @ ''/edit'')"
      "\<not> matches_task_path [] (''/api/tasks/'' @ seg @ ''/toggle'')"
      "\<not> matches_task_path ''/edit'' (''/api/tasks/'' @ seg @ ''/toggle'')"
      "\<not> matches_task_path ''/toggle'' (''/api/tasks/'' @ seg @ ''/toggle'')"
      using n [of "[]"] n [of "''/edit''"] n [of "''/toggle''"] by simp_all
    show "handleApiRequest s req (''/api/tasks/'' @ seg) m now
             = (jsonErrorResponse ''API Endpoint Not Found'' 404, s)"
      unfolding handleApiRequest_def using m by simp
    show "handleApiRequest s req (''/api/tasks/'' @ seg @ ''/edit'') m now
             = (jsonErrorResponse ''API Endpoint Not Found'' 404, s)"
      unfolding handleApiRequest_def using m by simp
    show "handleApiRequest s req (''/api/tasks/'' @ seg @ ''/toggle'') m now
             = (jsonErrorResponse ''API Endpoint Not Found'' 404, s)"
      unfolding handleApiRequest_def using m by simp
  qed
  show ?thesis
    unfolding Let_def task_not_found_response [symmetric] task_not_deleted_response [symmetric]
    using routed unmatched unknown_id_handlers [of s seg] unparsed_update [of req _ s "Some seg"]
    by (intro conjI impI allI) simp_all
qed

theorem word_id_routed_witness:
  \<open>(let s = snd (new_TaskService 1000 2000 3000);
         req = \<lparr>req_status = None, req_formData = Inr []\<rparr>;
         alert = Some
             (''\<newline>'' @
              ''    <sl-alert variant="danger" open closable>\<newline>'' @
              ''      <sl-icon slot="icon" name="exclamation-octagon"></sl-icon>\<newline>'' @
              ''      Task not found.\<newline>'' @
              ''    </sl-alert>\<newline>'' @
              ''  '')
     in ''abc_9'' \<noteq> [] \<and> list_all isWordChar ''abc_9''
        \<and> Map_get (taskStore s) ''abc_9'' = None
        \<and> parseFormData req = Inr []
        \<and> resp_status (fst (handleApiRequest s req ''/api/tasks/abc_9'' ''GET'' 5000)) = 404
        \<and> resp_body (fst (handleApiRequest s req ''/api/tasks/abc_9'' ''GET'' 5000)) = alert
        \<and> resp_status (fst (handleApiRequest s req ''/api/tasks/abc_9'' ''PUT'' 5000)) = 404
        \<and> resp_body (fst (handleApiRequest s req ''/api/tasks/abc_9'' ''PUT'' 5000)) = alert
        \<and> resp_status (fst (handleApiRequest s req ''/api/tasks/abc_9/edit'' ''GET'' 5000))
            = 404
        \<and> resp_body (fst (handleApiRequest s req ''/api/tasks/abc_9/edit'' ''GET'' 5000))
            = alert
        \<and> resp_status (fst (handleApiRequest s req ''/api/tasks/abc_9/toggle'' ''PUT'' 5000))
            = 404
        \<and> resp_body (fst (handleApiRequest s req ''/api/tasks/abc_9/toggle'' ''PUT'' 5000))
            = alert
        \<and> resp_status (fst (handleApiRequest s req ''/api/tasks/abc_9'' ''DELETE'' 5000)) = 404
        \<and> resp_body (fst (handleApiRequest s req ''/api/tasks/abc_9'' ''DELETE'' 5000))
            = Some ''{"error":"Task not found or could not be deleted."}''
        \<and> \<not> list_all isWordChar ''a.b'' \<and> CHR ''/'' \<notin> set ''a.b''
        \<and> handleApiRequest s req ''/api/tasks/a.b'' ''GET'' 5000
            = (jsonErrorResponse ''API Endpoint Not Found'' 404, s))\<close>
proof -
  define s where "s = snd (new_TaskService 1000 2000 3000)"
  define req where "req = \<lparr>req_status = None, req_formData = Inr []\<rparr>"
  have w: "''abc_9'' \<noteq> [] \<and> list_all isWordChar ''abc_9''"
    and nw: "\<not> list_all isWordChar ''a.b'' \<and> CHR ''/'' \<notin> set ''a.b''"
    by (simp_all add: isWordChar_def)
  have u: "Map_get (taskStore s) ''abc_9'' = None" and p: "parseFormData req = Inr []"
    by (simp_all add: s_def seeded Map_get_def req_def parseFormData_def)
  note known = word_id_routed [of "''abc_9''" s req 5000, unfolded Let_def
      task_not_found_response [symmetric] task_not_deleted_response [symmetric]]
  note other = word_id_routed [of "''a.b''" s req 5000, unfolded Let_def]
  have fetched: "handleApiRequest s req (''/api/tasks/'' @ ''abc_9'') ''GET'' 5000
      = (htmlErrorResponse ''Task not found.'' 404 ''danger'', s)"
    using known w u by blast
  have updated: "handleApiRequest s req (''/api/tasks/'' @ ''abc_9'') ''PUT'' 5000
      = (htmlErrorResponse ''Task not found.'' 404 ''danger'', s)"
    using known w u p by blast
  have edited: "handleApiRequest s req (''/api/tasks/'' @ ''abc_9'' @ ''/edit'') ''GET'' 5000
      = (htmlErrorResponse ''Task not found.'' 404 ''danger'', s)"
    using known w u by blast
  have toggled: "handleApiRequest s req (''/api/tasks/'' @ ''abc_9'' @ ''/toggle'') ''PUT'' 5000
      = (htmlErrorResponse ''Task not found.'' 404 ''danger'', s)"
    using known w u by blast
  have deleted: "handleApiRequest s req (''/api/tasks/'' @ ''abc_9'') ''DELETE'' 5000
      = (jsonErrorResponse ''Task not found or could not be deleted.'' 404, s)"
    using known w u by blast
  have unrouted: "handleApiRequest s req (''/api/tasks/'' @ ''a.b'') ''GET'' 5000
      = (jsonErrorResponse ''API Endpoint Not Found'' 404, s)"
    using other nw by blast
  have alert: "resp_status (htmlErrorResponse ''Task not found.'' 404 ''danger'') = 404"
    \<open>resp_body (htmlErrorResponse ''Task not found.'' 404 ''danger'') = Some
             (''\<newline>'' @
              ''    <sl-alert variant="danger" open closable>\<newline>'' @
              ''      <sl-icon slot="icon" name="exclamation-octagon"></sl-icon>\<newline>'' @
              ''      Task not found.\<newline>'' @
              ''    </sl-alert>\<newline>'' @
              ''  '')\<close>
    "resp_status (jsonErrorResponse ''Task not found or could not be deleted.'' 404) = 404"
    \<open>resp_body (jsonErrorResponse ''Task not found or could not be deleted.'' 404)
       = Some ''{"error":"Task not found or could not be deleted."}''\<close>
    by (simp_all add: task_not_found_response task_not_deleted_response)
  show ?thesis
    unfolding Let_def s_def [symmetric] req_def [symmetric]
    using fetched updated edited toggled deleted unrouted w nw u p
    by (simp add: alert)
qed

text \<open>
  An id with a non-slash character that is no word character is not matched: for the id
  \<open>a-b\<close> every one of the five routes falls through to the route-not-found response, which
  is not the response of the task handler for an unknown id. And for an unknown id of word
  characters, an update whose body does not parse is answered with the unexpected-error
  response, status 500, not with not-found.
\<close>

theorem non_word_id_not_routed:
  "(let s = snd (new_TaskService 1000 2000 3000);
        req = \<lparr>req_status = None, req_formData = Inr []\<rparr>;
        unparsed = \<lparr>req_status = None,
                    req_formData = Inl (Error ''Body can not be decoded as form data'')\<rparr>;
        notFound = (jsonErrorResponse ''API Endpoint Not Found'' 404, s)
    in handleApiRequest s req ''/api/tasks/a-b'' ''GET'' 5000 = notFound
       \<and> handleApiRequest s req ''/api/tasks/a-b'' ''PUT'' 5000 = notFound
       \<and> handleApiRequest s req ''/api/tasks/a-b'' ''DELETE'' 5000 = notFound
       \<and> handleApiRequest s req ''/api/tasks/a-b/edit'' ''GET'' 5000 = notFound
       \<and> handleApiRequest s req ''/api/tasks/a-b/toggle'' ''PUT'' 5000 = notFound
       \<and> CHR ''/'' \<notin> set ''a-b''
       \<and> getTaskByIdHandler s (Some ''a-b'')
           = htmlErrorResponse ''Task not found.'' 404 ''danger''
       \<and> jsonErrorResponse ''API Endpoint Not Found'' 404
           \<noteq> htmlErrorResponse ''Task not found.'' 404 ''danger''
       \<and> Map_get (taskStore s) ''abc_9'' = None
       \<and> handleApiRequest s unparsed ''/api/tasks/abc_9'' ''PUT'' 5000
           = (htmlErrorResponse ''Failed to update task due to an unexpected error.'' 500
                ''danger'', s)
       \<and> resp_status (fst (handleApiRequest s unparsed ''/api/tasks/abc_9'' ''PUT'' 5000))
           = 500)"
proof -
  define s where "s = snd (new_TaskService 1000 2000 3000)"
  have m: "\<not> matches_task_path [] ''/api/tasks/a-b''"
    "\<not> matches_task_path ''/edit'' ''/api/tasks/a-b''"
    "\<not> matches_task_path ''/toggle'' ''/api/tasks/a-b''"
    "\<not> matches_task_path [] ''/api/tasks/a-b/edit''"
    "\<not> matches_task_path ''/edit'' ''/api/tasks/a-b/edit''"
    "\<not> matches_task_path ''/toggle'' ''/api/tasks/a-b/edit''"
    "\<not> matches_task_path [] ''/api/tasks/a-b/toggle''"
    "\<not> matches_task_path ''/edit'' ''/api/tasks/a-b/toggle''"
    "\<not> matches_task_path ''/toggle'' ''/api/tasks/a-b/toggle''"
    "matches_task_path [] ''/api/tasks/abc_9''"
    by (simp_all add: matches_task_path_def isWordChar_def)
  have h: "getTaskByIdHandler s (Some ''a-b'')
           = htmlErrorResponse ''Task not found.'' 404 ''danger''"
    "Map_get (taskStore s) ''abc_9'' = None"
    by (simp_all add: s_def seeded getTaskByIdHandler_def getTaskById_def Map_get_def)
  have d: "jsonErrorResponse ''API Endpoint Not Found'' 404
           \<noteq> htmlErrorResponse ''Task not found.'' 404 ''danger''"
    by (simp add: jsonErrorResponse_def htmlErrorResponse_def headers_with_def)
  have u: "updateTaskHandler s
             \<lparr>req_status = None,
                req_formData = Inl (Error ''Body can not be decoded as form data'')\<rparr> i
           = (htmlErrorResponse ''Failed to update task due to an unexpected error.'' 500
                ''danger'', s)" for i
    by (simp add: updateTaskHandler_def parseFormData_def catch_response_def)
  have st: "resp_status (htmlErrorResponse ''Failed to update task due to an unexpected error.''
              500 ''danger'') = 500"
    by (simp add: htmlErrorResponse_def Let_def)
  show ?thesis
    unfolding Let_def s_def [symmetric] using m h d u st by (simp add: handleApiRequest_def)
qed

section \<open>Error responses\<close>

lemma htmlErrorResponse_html:
  "content_type (htmlErrorResponse m st v) = Some ''text/html''"
  "\<exists>y. resp_body (htmlErrorResponse m st v) = Some y"
  "resp_status (htmlErrorResponse m st v) = st"
  by (simp_all add: htmlErrorResponse_def content_type_def headers_with_def
      DEFAULT_CORS_HEADERS_def Let_def)

lemma htmlResponse_html:
  "content_type (htmlResponse h) = Some ''text/html''"
  "\<exists>y. resp_body (htmlResponse h) = Some y"
  "resp_status (htmlResponse h) = 200"
  by (simp_all add: htmlResponse_def content_type_def headers_with_def DEFAULT_CORS_HEADERS_def)

lemma jsonErrorResponse_json:
  "content_type (jsonErrorResponse m st) = Some ''application/json''"
  "resp_status (jsonErrorResponse m st) = st"
  by (simp_all add: jsonErrorResponse_def content_type_def headers_with_def
      DEFAULT_CORS_HEADERS_def)

lemma catch_response_html:
  "content_type (catch_response u e) = Some ''text/html''"
  "\<exists>y. resp_body (catch_response u e) = Some y"
  by (simp_all add: catch_response_def htmlErrorResponse_html)

lemma getTasksHandler_html:
  "content_type (getTasksHandler s req) = Some ''text/html''"
  "\<exists>y. resp_body (getTasksHandler s req) = Some y"
  by (simp_all add: getTasksHandler_def Let_def htmlResponse_html)

lemma createTaskHandler_html:
  "content_type (fst (createTaskHandler s req now)) = Some ''text/html''"
  "\<exists>y. resp_body (fst (createTaskHandler s req now)) = Some y"
  by (simp_all add: createTaskHandler_def Let_def htmlResponse_html catch_response_html
      split: sum.splits prod.splits)

lemma getTaskByIdHandler_html:
  "content_type (getTaskByIdHandler s i) = Some ''text/html''"
  "\<exists>y. resp_body (getTaskByIdHandler s i) = Some y"
  by (simp_all add: getTaskByIdHandler_def htmlResponse_html htmlErrorResponse_html
      split: option.splits)

lemma getTaskEditFormHandler_html:
  "content_type (getTaskEditFormHandler s i) = Some ''text/html''"
  "\<exists>y. resp_body (getTaskEditFormHandler s i) = Some y"
  by (simp_all add: getTaskEditFormHandler_def htmlResponse_html htmlErrorResponse_html
      split: option.splits)

lemma updateTaskHandler_html:
  "content_type (fst (updateTaskHandler s req i)) = Some ''text/html''"
  "\<exists>y. resp_body (fst (updateTaskHandler s req i)) = Some y"
  by (simp_all add: updateTaskHandler_def Let_def htmlResponse_html htmlErrorResponse_html
      catch_response_html split: sum.splits prod.splits option.splits)

lemma toggleTaskHandler_html:
  "content_type (fst (toggleTaskHandler s i)) = Some ''text/html''"
  "\<exists>y. resp_body (fst (toggleTaskHandler s i)) = Some y"
  by (simp_all add: toggleTaskHandler_def htmlResponse_html htmlErrorResponse_html
      split: prod.splits option.splits)

lemma no_content_type_204:
  "content_type \<lparr>resp_status = 204, resp_headers = DEFAULT_CORS_HEADERS, resp_body = None\<rparr>
     = None"
  by (simp add: content_type_def DEFAULT_CORS_HEADERS_def)

text \<open>What a handler answers: a fragment with status 200, or one of the alerts.\<close>

lemma htmlErrorResponse_danger:
  \<open>htmlErrorResponse msg st ''danger'' =
     \<lparr>resp_status = st,
      resp_headers =
        [(''Access-Control-Allow-Origin'', ''*''),
         (''Access-Control-Allow-Methods'', ''GET, POST, PUT, DELETE, OPTIONS''),
         (''Access-Control-Allow-Headers'', ''Content-Type''),
         (''Content-Type'', ''text/html'')],
      resp_body = Some
        (''\<newline>'' @
         ''    <sl-alert variant="danger" open closable>\<newline>'' @
         ''      <sl-icon slot="icon" name="exclamation-octagon"></sl-icon>\<newline>'' @
         ''      '' @ htmlEscape msg @ ''\<newline>'' @
         ''    </sl-alert>\<newline>'' @
         ''  '')\<rparr>\<close>
  by (simp add: htmlErrorResponse_def headers_with_def DEFAULT_CORS_HEADERS_def)

lemma jsonErrorResponse_not_found:
  \<open>jsonErrorResponse ''API Endpoint Not Found'' 404 =
     \<lparr>resp_status = 404,
      resp_headers =
        [(''Access-Control-Allow-Origin'', ''*''),
         (''Access-Control-Allow-Methods'', ''GET, POST, PUT, DELETE, OPTIONS''),
         (''Access-Control-Allow-Headers'', ''Content-Type''),
         (''Content-Type'', ''application/json'')],
      resp_body = Some ''{"error":"API Endpoint Not Found"}''\<rparr>\<close>
  by (simp add: jsonErrorResponse_def headers_with_def DEFAULT_CORS_HEADERS_def
      JSON_stringify_string_def JSON_quote_char_def)

lemma catch_response_cases:
  "catch_response u e = htmlErrorResponse (message e) 400 ''danger''
     \<and> prefix ''Invalid task data:'' (message e)
   \<or> catch_response u e = htmlErrorResponse u 500 ''danger''"
  by (simp add: catch_response_def)

lemma getTasksHandler_status: "resp_status (getTasksHandler s req) = 200"
  by (simp add: getTasksHandler_def Let_def htmlResponse_html)

lemma getTaskByIdHandler_cases:
  "resp_status (getTaskByIdHandler s i) = 200
   \<or> getTaskByIdHandler s i = htmlErrorResponse ''Task not found.'' 404 ''danger''"
  by (simp add: getTaskByIdHandler_def htmlResponse_html split: option.splits)

lemma getTaskEditFormHandler_cases:
  "resp_status (getTaskEditFormHandler s i) = 200
   \<or> getTaskEditFormHandler s i = htmlErrorResponse ''Task not found.'' 404 ''danger''"
  by (simp add: getTaskEditFormHandler_def htmlResponse_html split: option.splits)

lemma toggleTaskHandler_cases:
  "resp_status (fst (toggleTaskHandler s i)) = 200
   \<or> fst (toggleTaskHandler s i) = htmlErrorResponse ''Task not found.'' 404 ''danger''"
  by (simp add: toggleTaskHandler_def htmlResponse_html split: prod.splits option.splits)

lemma createTaskHandler_cases:
  "resp_status (fst (createTaskHandler s req now)) = 200
   \<or> (\<exists>e. fst (createTaskHandler s req now)
           = catch_response ''Failed to create task due to an unexpected error.'' e)"
  by (simp add: createTaskHandler_def Let_def htmlResponse_html split: sum.splits prod.splits)
    blast

lemma updateTaskHandler_cases:
  "resp_status (fst (updateTaskHandler s req i)) = 200
   \<or> fst (updateTaskHandler s req i) = htmlErrorResponse ''Task not found.'' 404 ''danger''
   \<or> (\<exists>e. fst (updateTaskHandler s req i)
           = catch_response ''Failed to update task due to an unexpected error.'' e)"
  by (simp add: updateTaskHandler_def Let_def htmlResponse_html
      split: sum.splits prod.splits option.splits) blast

text \<open>
  Claim C8. The response of \<open>handleApiRequest\<close> has the JSON content type exactly when no
  route takes the request, or the request is a delete of an id that is not in the store.
  In the first case the response is the envelope \<open>{"error":"API Endpoint Not Found"}\<close> with
  status 404, in the second the envelope
  \<open>{"error":"Task not found or could not be deleted."}\<close> with status 404. Every other
  response with a status of 400 or more has the HTML content type and as its body the
  alert fragment around the escaped message: \<open>Task not found.\<close> with status 404, the
  message of a validation error, which starts with \<open>Invalid task data:\<close>, with status 400,
  or the unexpected-error message of the create or the update handler with status 500.
\<close>

theorem json_error_paths:
  \<open>(let resp = fst (handleApiRequest s req path method now)
    in (\<not> route_matches path method \<longrightarrow>
          resp = jsonErrorResponse ''API Endpoint Not Found'' 404
          \<and> resp =
              \<lparr>resp_status = 404,
               resp_headers =
                 [(''Access-Control-Allow-Origin'', ''*''),
                  (''Access-Control-Allow-Methods'', ''GET, POST, PUT, DELETE, OPTIONS''),
                  (''Access-Control-Allow-Headers'', ''Content-Type''),
                  (''Content-Type'', ''application/json'')],
               resp_body = Some ''{"error":"API Endpoint Not Found"}''\<rparr>)
       \<and> (delete_of_missing s path method \<longrightarrow>
          resp = jsonErrorResponse ''Task not found or could not be deleted.'' 404
          \<and> resp =
              \<lparr>resp_status = 404,
               resp_headers =
                 [(''Access-Control-Allow-Origin'', ''*''),
                  (''Access-Control-Allow-Methods'', ''GET, POST, PUT, DELETE, OPTIONS''),
                  (''Access-Control-Allow-Headers'', ''Content-Type''),
                  (''Content-Type'', ''application/json'')],
               resp_body = Some ''{"error":"Task not found or could not be deleted."}''\<rparr>)
       \<and> (content_type resp = Some ''application/json''
            \<longleftrightarrow> \<not> route_matches path method \<or> delete_of_missing s path method)
       \<and> (400 \<le> resp_status resp \<and> route_matches path method
            \<and> \<not> delete_of_missing s path method \<longrightarrow>
          content_type resp = Some ''text/html'' \<and> resp_body resp \<noteq> None
          \<and> (\<exists>msg.
                resp =
                  \<lparr>resp_status = resp_status resp,
                   resp_headers =
                     [(''Access-Control-Allow-Origin'', ''*''),
                      (''Access-Control-Allow-Methods'', ''GET, POST, PUT, DELETE, OPTIONS''),
                      (''Access-Control-Allow-Headers'', ''Content-Type''),
                      (''Content-Type'', ''text/html'')],
                   resp_body = Some
                     (''\<newline>'' @
                      ''    <sl-alert variant="danger" open closable>\<newline>'' @
                      ''      <sl-icon slot="icon" name="exclamation-octagon"></sl-icon>\<newline>'' @
                      ''      '' @ htmlEscape msg @ ''\<newline>'' @
                      ''    </sl-alert>\<newline>'' @
                      ''  '')\<rparr>
                \<and> (resp_status resp = 404 \<and> msg = ''Task not found.''
                    \<or> resp_status resp = 400 \<and> prefix ''Invalid task data:'' msg
                    \<or> resp_status resp = 500
                       \<and> msg = (if method = ''POST''
                                then ''Failed to create task due to an unexpected error.''
                                else ''Failed to update task due to an unexpected error.'')))))\<close>
proof -
  define resp where "resp = fst (handleApiRequest s req path method now)"
  define alert where
    "alert r \<longleftrightarrow> (\<exists>msg. r = htmlErrorResponse msg (resp_status r) ''danger''
        \<and> (resp_status r = 404 \<and> msg = ''Task not found.''
            \<or> resp_status r = 400 \<and> prefix ''Invalid task data:'' msg
            \<or> resp_status r = 500
               \<and> msg = (if method = ''POST''
                        then ''Failed to create task due to an unexpected error.''
                        else ''Failed to update task due to an unexpected error.'')))" for r
  have types:
    "(\<not> route_matches path method \<longrightarrow>
          resp = jsonErrorResponse ''API Endpoint Not Found'' 404)
       \<and> (delete_of_missing s path method \<longrightarrow>
          resp = jsonErrorResponse ''Task not found or could not be deleted.'' 404)
       \<and> (content_type resp = Some ''application/json''
            \<longleftrightarrow> \<not> route_matches path method \<or> delete_of_missing s path method)
       \<and> (400 \<le> resp_status resp \<and> route_matches path method
            \<and> \<not> delete_of_missing s path method \<longrightarrow>
          content_type resp = Some ''text/html'' \<and> resp_body resp \<noteq> None)"
    unfolding resp_def handleApiRequest_def route_matches_def delete_of_missing_def
    by (simp add: jsonErrorResponse_json getTasksHandler_html createTaskHandler_html
        getTaskByIdHandler_html getTaskEditFormHandler_html updateTaskHandler_html
        toggleTaskHandler_html deleteTaskHandler_cases no_content_type_204)
  have not_found: "alert (htmlErrorResponse ''Task not found.'' 404 ''danger'')"
    unfolding alert_def by (simp add: htmlErrorResponse_html)
  have caught_create:
    "alert (catch_response ''Failed to create task due to an unexpected error.'' e)"
    if "method = ''POST''" for e
    using catch_response_cases [of "''Failed to create task due to an unexpected error.''" e]
      that unfolding alert_def by (auto simp: htmlErrorResponse_html)
  have caught_update:
    "alert (catch_response ''Failed to update task due to an unexpected error.'' e)"
    if "method = ''PUT''" for e
    using catch_response_cases [of "''Failed to update task due to an unexpected error.''" e]
      that unfolding alert_def by (auto simp: htmlErrorResponse_html)
  have fetched: "alert (getTaskByIdHandler s i)"
    if "400 \<le> resp_status (getTaskByIdHandler s i)" for i
    using getTaskByIdHandler_cases [of s i] that not_found by auto
  have edited: "alert (getTaskEditFormHandler s i)"
    if "400 \<le> resp_status (getTaskEditFormHandler s i)" for i
    using getTaskEditFormHandler_cases [of s i] that not_found by auto
  have toggled: "alert (fst (toggleTaskHandler s i))"
    if "400 \<le> resp_status (fst (toggleTaskHandler s i))" for i
    using toggleTaskHandler_cases [of s i] that not_found by auto
  have created: "alert (fst (createTaskHandler s req now))"
    if "400 \<le> resp_status (fst (createTaskHandler s req now))" "method = ''POST''"
    using createTaskHandler_cases [of s req now] that caught_create by auto
  have updated: "alert (fst (updateTaskHandler s req i))"
    if "400 \<le> resp_status (fst (updateTaskHandler s req i))" "method = ''PUT''" for i
    using updateTaskHandler_cases [of s req i] that not_found caught_update by auto
  have failures: "alert resp"
    if "400 \<le> resp_status resp \<and> route_matches path method
          \<and> \<not> delete_of_missing s path method"
    using that fetched edited toggled created updated
    unfolding resp_def handleApiRequest_def route_matches_def delete_of_missing_def
    by (auto simp: getTasksHandler_status deleteTaskHandler_cases split: if_splits)
  have written: \<open>\<exists>msg.
                resp =
                  \<lparr>resp_status = resp_status resp,
                   resp_headers =
                     [(''Access-Control-Allow-Origin'', ''*''),
                      (''Access-Control-Allow-Methods'', ''GET, POST, PUT, DELETE, OPTIONS''),
                      (''Access-Control-Allow-Headers'', ''Content-Type''),
                      (''Content-Type'', ''text/html'')],
                   resp_body = Some
                     (''\<newline>'' @
                      ''    <sl-alert variant="danger" open closable>\<newline>'' @
                      ''      <sl-icon slot="icon" name="exclamation-octagon"></sl-icon>\<newline>'' @
                      ''      '' @ htmlEscape msg @ ''\<newline>'' @
                      ''    </sl-alert>\<newline>'' @
                      ''  '')\<rparr>
                \<and> (resp_status resp = 404 \<and> msg = ''Task not found.''
                    \<or> resp_status resp = 400 \<and> prefix ''Invalid task data:'' msg
                    \<or> resp_status resp = 500
                       \<and> msg = (if method = ''POST''
                                then ''Failed to create task due to an unexpected error.''
                                else ''Failed to update task due to an unexpected error.''))\<close>
    if "alert resp"
    using that unfolding alert_def htmlErrorResponse_danger .
  show ?thesis
    unfolding Let_def resp_def [symmetric] jsonErrorResponse_not_found [symmetric]
      task_not_deleted_response [symmetric]
    using types failures written by blast
qed

theorem json_error_paths_witness:
  \<open>(let s = snd (new_TaskService 1000 2000 3000);
         req = \<lparr>req_status = None, req_formData = Inr [(''title'', ''   '')]\<rparr>;
         unmatched = fst (handleApiRequest s req ''/api/nothing'' ''GET'' 5000);
         deleted = fst (handleApiRequest s req ''/api/tasks/7'' ''DELETE'' 5000);
         fetched = fst (handleApiRequest s req ''/api/tasks/7'' ''GET'' 5000);
         updated = fst (handleApiRequest s req ''/api/tasks/1'' ''PUT'' 5000)
     in \<not> route_matches ''/api/nothing'' ''GET''
        \<and> resp_status unmatched = 404
        \<and> resp_body unmatched = Some ''{"error":"API Endpoint Not Found"}''
        \<and> delete_of_missing s ''/api/tasks/7'' ''DELETE''
        \<and> resp_status deleted = 404
        \<and> resp_body deleted = Some ''{"error":"Task not found or could not be deleted."}''
        \<and> route_matches ''/api/tasks/7'' ''GET''
        \<and> \<not> delete_of_missing s ''/api/tasks/7'' ''GET''
        \<and> resp_status fetched = 404 \<and> content_type fetched = Some ''text/html''
        \<and> resp_body fetched = Some
             (''\<newline>'' @
              ''    <sl-alert variant="danger" open closable>\<newline>'' @
              ''      <sl-icon slot="icon" name="exclamation-octagon"></sl-icon>\<newline>'' @
              ''      Task not found.\<newline>'' @
              ''    </sl-alert>\<newline>'' @
              ''  '')
        \<and> route_matches ''/api/tasks/1'' ''PUT''
        \<and> \<not> delete_of_missing s ''/api/tasks/1'' ''PUT''
        \<and> resp_status updated = 400 \<and> content_type updated = Some ''text/html''
        \<and> resp_body updated = Some
             (''\<newline>'' @
              ''    <sl-alert variant="danger" open closable>\<newline>'' @
              ''      <sl-icon slot="icon" name="exclamation-octagon"></sl-icon>\<newline>'' @
              ''      Invalid task data: Title cannot be empty.\<newline>'' @
              ''    </sl-alert>\<newline>'' @
              ''  ''))\<close>
proof -
  define s where "s = snd (new_TaskService 1000 2000 3000)"
  define req where "req = \<lparr>req_status = None, req_formData = Inr [(''title'', ''   '')]\<rparr>"
  define unmatched where "unmatched = fst (handleApiRequest s req ''/api/nothing'' ''GET'' 5000)"
  define deleted where "deleted = fst (handleApiRequest s req ''/api/tasks/7'' ''DELETE'' 5000)"
  define fetched where "fetched = fst (handleApiRequest s req ''/api/tasks/7'' ''GET'' 5000)"
  define updated where "updated = fst (handleApiRequest s req ''/api/tasks/1'' ''PUT'' 5000)"
  have m: "\<not> route_matches ''/api/nothing'' ''GET''"
    "route_matches ''/api/tasks/7'' ''GET''" "route_matches ''/api/tasks/1'' ''PUT''"
    by (simp_all add: route_matches_def matches_task_path_def isWordChar_def)
  have d: "delete_of_missing s ''/api/tasks/7'' ''DELETE''"
    "\<not> delete_of_missing s ''/api/tasks/7'' ''GET''"
    "\<not> delete_of_missing s ''/api/tasks/1'' ''PUT''"
    by (simp_all add: delete_of_missing_def matches_task_path_def isWordChar_def
        getPathParams_def params_id_def getTaskById_def Map_get_def s_def seeded)
  have r: "fetched = htmlErrorResponse ''Task not found.'' 404 ''danger''"
    "updated = htmlErrorResponse ''Invalid task data: Title cannot be empty.'' 400 ''danger''"
    by (simp_all add: fetched_def updated_def handleApiRequest_def matches_task_path_def
        isWordChar_def getPathParams_def params_id_def getTaskByIdHandler_def getTaskById_def
        Map_get_def s_def seeded updateTaskHandler_def parseFormData_def req_def
        FormData_get_def updateTask_def trim_def isWhiteSpace_def catch_response_def)
  have st: "400 \<le> resp_status fetched" "400 \<le> resp_status updated"
    "resp_status fetched = 404" "resp_status updated = 400"
    by (simp_all add: r htmlErrorResponse_html)
  have bodies: \<open>resp_body fetched = Some
             (''\<newline>'' @
              ''    <sl-alert variant="danger" open closable>\<newline>'' @
              ''      <sl-icon slot="icon" name="exclamation-octagon"></sl-icon>\<newline>'' @
              ''      Task not found.\<newline>'' @
              ''    </sl-alert>\<newline>'' @
              ''  '')\<close>
    \<open>resp_body updated = Some
             (''\<newline>'' @
              ''    <sl-alert variant="danger" open closable>\<newline>'' @
              ''      <sl-icon slot="icon" name="exclamation-octagon"></sl-icon>\<newline>'' @
              ''      Invalid task data: Title cannot be empty.\<newline>'' @
              ''    </sl-alert>\<newline>'' @
              ''  '')\<close>
    by (simp_all add: r htmlErrorResponse_danger htmlEscape_def htmlEscape_char_def)
  note unmatched_facts = json_error_paths [of s req "''/api/nothing''" "''GET''" 5000,
      unfolded Let_def, folded unmatched_def]
  note deleted_facts = json_error_paths [of s req "''/api/tasks/7''" "''DELETE''" 5000,
      unfolded Let_def, folded deleted_def]
  note fetched_facts = json_error_paths [of s req "''/api/tasks/7''" "''GET''" 5000,
      unfolded Let_def, folded fetched_def]
  note updated_facts = json_error_paths [of s req "''/api/tasks/1''" "''PUT''" 5000,
      unfolded Let_def, folded updated_def]
  have "unmatched = jsonErrorResponse ''API Endpoint Not Found'' 404"
    using unmatched_facts m(1) by blast
  then have u: "resp_status unmatched = 404"
    \<open>resp_body unmatched = Some ''{"error":"API Endpoint Not Found"}''\<close>
    by (simp_all add: jsonErrorResponse_not_found)
  have "deleted = jsonErrorResponse ''Task not found or could not be deleted.'' 404"
    using deleted_facts d(1) by blast
  then have e: "resp_status deleted = 404"
    \<open>resp_body deleted = Some ''{"error":"Task not found or could not be deleted."}''\<close>
    by (simp_all add: task_not_deleted_response)
  have f: "content_type fetched = Some ''text/html''"
    using fetched_facts m(2) d(2) st(1) by blast
  have p: "content_type updated = Some ''text/html''"
    using updated_facts m(3) d(3) st(2) by blast
  show ?thesis
    unfolding Let_def s_def [symmetric] req_def [symmetric] unmatched_def [symmetric]
      deleted_def [symmetric] fetched_def [symmetric] updated_def [symmetric]
    using m d st(3,4) bodies u e f p by simp
qed

end
